theory Spec2Isabelle
  imports Complex_Main "HOL-Library.Sublist" "HOL-Library.AList" "HOL-Library.Multiset"
begin

section \<open>Python strings\<close>

text \<open>
  Strings are modelled as lists of ASCII characters. The source only uses
  \<^verbatim>\<open>str.upper\<close>, \<^verbatim>\<open>str.lower\<close>, \<^verbatim>\<open>str.strip\<close>, \<^verbatim>\<open>str.replace\<close>, \<^verbatim>\<open>str.split\<close>,
  \<^verbatim>\<open>str.join\<close> and the substring test \<^verbatim>\<open>in\<close>; each is written out below with
  Python's behaviour on ASCII text (case mapping of the letters a-z / A-Z, the
  ASCII white space of \<^verbatim>\<open>str.isspace\<close>).
\<close>

definition ascii_lowercase :: string where
  "ascii_lowercase = ''abcdefghijklmnopqrstuvwxyz''"

definition ascii_uppercase :: string where
  "ascii_uppercase = ''ABCDEFGHIJKLMNOPQRSTUVWXYZ''"

definition upper_char :: "char \<Rightarrow> char" where
  "upper_char c = (case map_of (zip ascii_lowercase ascii_uppercase) c of
                     None \<Rightarrow> c | Some u \<Rightarrow> u)"

definition lower_char :: "char \<Rightarrow> char" where
  "lower_char c = (case map_of (zip ascii_uppercase ascii_lowercase) c of
                     None \<Rightarrow> c | Some l \<Rightarrow> l)"

definition upper :: "string \<Rightarrow> string" where
  "upper s = map upper_char s"

definition lower :: "string \<Rightarrow> string" where
  "lower s = map lower_char s"

text \<open>\<^verbatim>\<open>str.isspace\<close> on ASCII: tab, LF, VT, FF, CR, the separators 28-31 and the blank.\<close>

definition isspace :: "char \<Rightarrow> bool" where
  "isspace c = (c \<in> set [CHR 0x09, CHR 0x0A, CHR 0x0B, CHR 0x0C, CHR 0x0D,
                          CHR 0x1C, CHR 0x1D, CHR 0x1E, CHR 0x1F, CHR '' ''])"

definition strip :: "string \<Rightarrow> string" where
  "strip s = rev (dropWhile isspace (rev (dropWhile isspace s)))"

text \<open>
  \<^verbatim>\<open>s.replace(old, new)\<close>: the non-overlapping occurrences of \<open>old\<close>, found from
  the left, are replaced; an empty \<open>old\<close> matches before every character and at the end.
\<close>

fun replace :: "string \<Rightarrow> string \<Rightarrow> string \<Rightarrow> string" where
  "replace old new [] = (if old = [] then new else [])"
| "replace old new (c # cs) =
     (if old = [] then new @ c # replace old new cs
      else if prefix old (c # cs) then new @ replace old new (drop (length old) (c # cs))
      else c # replace old new cs)"

text \<open>\<^verbatim>\<open>s.split()\<close>: the maximal runs of non-space characters, in order.\<close>

fun split_acc :: "string \<Rightarrow> string \<Rightarrow> string list" where
  "split_acc cur [] = (if cur = [] then [] else [cur])"
| "split_acc cur (c # cs) =
     (if isspace c then (if cur = [] then split_acc [] cs else cur # split_acc [] cs)
      else split_acc (cur @ [c]) cs)"

definition split_ws :: "string \<Rightarrow> string list" where
  "split_ws s = split_acc [] s"

fun join :: "string \<Rightarrow> string list \<Rightarrow> string" where
  "join sep [] = []"
| "join sep [w] = w"
| "join sep (w # v # ws) = w @ sep @ join sep (v # ws)"

text \<open>\<^verbatim>\<open>sub in s\<close> on strings.\<close>

fun contains :: "string \<Rightarrow> string \<Rightarrow> bool" where
  "contains sub [] = (sub = [])"
| "contains sub (c # cs) = (prefix sub (c # cs) \<or> contains sub cs)"

section \<open>Data model (models.py)\<close>

record Address =
  street :: string
  city :: string
  state :: string
  zip_code :: "string option"
  borough :: "string option"

text \<open>\<^verbatim>\<open>x or default\<close> on an optional string: \<^verbatim>\<open>None\<close> and the empty string are falsy.\<close>

definition str_or :: "string option \<Rightarrow> string \<Rightarrow> string" where
  "str_or x d = (case x of None \<Rightarrow> d | Some s \<Rightarrow> if s = [] then d else s)"

section \<open>Address normalisation\<close>

subsection \<open>PropertyMatcher._normalize_address (matcher.py)\<close>

definition replacements :: "(string \<times> string) list" where
  "replacements =
     [(''STREET'', ''ST''), (''AVENUE'', ''AVE''), (''ROAD'', ''RD''),
      (''BOULEVARD'', ''BLVD''), (''DRIVE'', ''DR''), (''LANE'', ''LN''),
      (''PLACE'', ''PL''), (''EAST'', ''E''), (''WEST'', ''W''),
      (''NORTH'', ''N''), (''SOUTH'', ''S'')]"

definition apply_replacements :: "(string \<times> string) list \<Rightarrow> string \<Rightarrow> string" where
  "apply_replacements rs s = foldl (\<lambda>acc (old, new). replace old new acc) s rs"

definition normalize_street :: "string \<Rightarrow> string" where
  "normalize_street st =
     join '' '' (split_ws (apply_replacements replacements (strip (upper st))))"

definition matcher_normalize_address :: "Address \<Rightarrow> string" where
  "matcher_normalize_address address = normalize_street (street address)"

subsection \<open>HPDCache._normalize_address (hpd_cache.py)\<close>

definition cache_normalize_address :: "Address \<Rightarrow> string" where
  "cache_normalize_address address =
     (let street' = strip (upper (street address));
          borough' = strip (upper (str_or (borough address) ''BROOKLYN''))
      in street' @ '', '' @ borough')"


section \<open>Remaining data model (models.py)\<close>

text \<open>
  A Python float (a price, a bathroom count, a score) is modelled by the rational number
  it denotes, so the model covers the finite floats; NaN and the infinities are outside
  it. Comparisons of floats are exact; arithmetic on floats is not computed by the model
  but taken from the parameters \<open>float_ops\<close> of the filter. The timestamp fields of the
  source classes (\<^verbatim>\<open>scraped_at\<close>, \<^verbatim>\<open>listing_date\<close>, \<^verbatim>\<open>processed_at\<close>,
  \<^verbatim>\<open>last_registration_date\<close>) are never read by the matcher, the cache or the filter and
  are left out. Field names that two classes share carry the prefix
  \<open>bldg_\<close> on the building side, and the field \<^verbatim>\<open>notes\<close> is called \<open>prop_notes\<close>.
\<close>

record ZillowProperty =
  zpid :: "string option"
  address :: Address
  price :: "rat option"
  bedrooms :: "int option"
  bathrooms :: "rat option"
  square_feet :: "int option"
  lot_size :: "int option"
  year_built :: "int option"
  property_type :: "string option"
  listing_status :: string
  days_on_market :: "int option"
  url :: "string option"
  description :: "string option"

record HPDBUnit =
  unit_number :: "string option"
  unit_type :: "string option"
  is_b_unit :: bool

record HPDBuilding =
  building_id :: "string option"
  bin :: "string option"
  bbl :: "string option"
  bldg_address :: Address
  bldg_total_units :: int
  residential_units :: int
  b_units :: "HPDBUnit list"
  bldg_has_b_units :: bool
  building_class :: "string option"
  registration_id :: "string option"
  landlord_name :: "string option"
  landlord_address :: "string option"

record EnrichedProperty =
  zillow_data :: ZillowProperty
  hpd_data :: "HPDBuilding option"
  hpd_match_found :: bool
  has_b_units :: bool
  b_unit_count :: int
  total_units :: int
  meets_criteria :: bool
  match_confidence :: "string option"
  prop_notes :: "string option"

datatype py_error =
  TypeError | ValueError | IndexError | KeyError | AttributeError | OverflowError | OtherError string

section \<open>Decimal numerals\<close>

definition digits :: string where
  "digits = ''0123456789''"

definition digit_char :: "nat \<Rightarrow> char" where
  "digit_char d = digits ! (d mod 10)"

definition digit_val :: "char \<Rightarrow> nat" where
  "digit_val c = length (takeWhile (\<lambda>d. d \<noteq> c) digits)"

text \<open>\<^verbatim>\<open>str(n)\<close> for a non-negative integer.\<close>

function str_of_nat :: "nat \<Rightarrow> string" where
  "str_of_nat n = (if n < 10 then [digit_char n] else str_of_nat (n div 10) @ [digit_char (n mod 10)])"
  by pat_completeness auto
termination
  by (relation "measure id") auto

declare str_of_nat.simps [simp del]

definition str_of_int :: "int \<Rightarrow> string" where
  "str_of_int i = (if i < 0 then ''-'' @ str_of_nat (nat (- i)) else str_of_nat (nat i))"

definition nat_of_digits :: "string \<Rightarrow> nat" where
  "nat_of_digits ds = foldl (\<lambda>acc d. 10 * acc + digit_val d) 0 ds"

section \<open>The HPD cache (hpd_cache.py)\<close>

text \<open>
  A cached row is a dictionary from column names to spreadsheet cells. A cell read by
  pandas is a missing value (NaN), an integer, a float or a string; a row written by
  \<^verbatim>\<open>save_to_cache\<close> may also hold \<^verbatim>\<open>None\<close>. Dictionaries are association lists in
  insertion order with distinct keys; \<^verbatim>\<open>d[k] = v\<close> is \<^const>\<open>AList.update\<close>.
\<close>

datatype cell = PyNone | NaN | PyInt int | PyFloat rat | PyStr string

type_synonym row = "(string \<times> cell) list"

type_synonym cache_data = "(string \<times> row) list"

text \<open>
  The two Python built-ins whose result the model does not compute are parameters:
  \<^verbatim>\<open>str\<close> on a float and \<^verbatim>\<open>int\<close> on a string (\<open>None\<close> is \<^verbatim>\<open>ValueError\<close>).
\<close>

record builtins =
  str_float :: "rat \<Rightarrow> string"
  int_str :: "string \<Rightarrow> int option"

definition row_get :: "row \<Rightarrow> string \<Rightarrow> cell \<Rightarrow> cell" where
  "row_get r k d = (case map_of r k of None \<Rightarrow> d | Some v \<Rightarrow> v)"

fun truthy :: "cell \<Rightarrow> bool" where
  "truthy PyNone = False"
| "truthy NaN = True"
| "truthy (PyInt n) = (n \<noteq> 0)"
| "truthy (PyFloat q) = (q \<noteq> 0)"
| "truthy (PyStr s) = (s \<noteq> [])"

text \<open>\<^verbatim>\<open>c > 0\<close>\<close>

fun cell_gt0 :: "cell \<Rightarrow> py_error + bool" where
  "cell_gt0 PyNone = Inl TypeError"
| "cell_gt0 NaN = Inr False"
| "cell_gt0 (PyInt n) = Inr (0 < n)"
| "cell_gt0 (PyFloat q) = Inr (0 < q)"
| "cell_gt0 (PyStr s) = Inl TypeError"

text \<open>\<^verbatim>\<open>int(c)\<close>: a float is truncated towards zero.\<close>

fun py_int :: "builtins \<Rightarrow> cell \<Rightarrow> py_error + int" where
  "py_int py PyNone = Inl TypeError"
| "py_int py NaN = Inl ValueError"
| "py_int py (PyInt n) = Inr n"
| "py_int py (PyFloat q) = Inr (if 0 \<le> q then \<lfloor>q\<rfloor> else \<lceil>q\<rceil>)"
| "py_int py (PyStr s) = (case int_str py s of None \<Rightarrow> Inl ValueError | Some n \<Rightarrow> Inr n)"

fun py_str :: "builtins \<Rightarrow> cell \<Rightarrow> string" where
  "py_str py PyNone = ''None''"
| "py_str py NaN = ''nan''"
| "py_str py (PyInt n) = str_of_int n"
| "py_str py (PyFloat q) = str_float py q"
| "py_str py (PyStr s) = s"

text \<open>\<^verbatim>\<open>pd.notna(c)\<close>\<close>

fun notna :: "cell \<Rightarrow> bool" where
  "notna PyNone = False"
| "notna NaN = False"
| "notna _ = True"

text \<open>The placeholder units \<^verbatim>\<open>B1 .. Bn\<close> regenerated from the stored count.\<close>

definition placeholder_units :: "int \<Rightarrow> HPDBUnit list" where
  "placeholder_units n =
     map (\<lambda>i. \<lparr>unit_number = Some (''B'' @ str_of_nat (i + 1)),
                unit_type = Some ''Basement'', is_b_unit = True\<rparr>) [0 ..< nat n]"

definition cached_b_units :: "builtins \<Rightarrow> row \<Rightarrow> py_error + HPDBUnit list" where
  "cached_b_units py r =
     (let b_unit_count = row_get r ''B Unit Count'' (PyInt 0) in
      if \<not> truthy b_unit_count then Inr []
      else case cell_gt0 b_unit_count of
             Inl e \<Rightarrow> Inl e
           | Inr False \<Rightarrow> Inr []
           | Inr True \<Rightarrow> (case py_int py b_unit_count of
                            Inl e \<Rightarrow> Inl e
                          | Inr n \<Rightarrow> Inr (placeholder_units n)))"

definition cached_total_units :: "builtins \<Rightarrow> row \<Rightarrow> py_error + int" where
  "cached_total_units py r =
     (if notna (row_get r ''Total Units'' PyNone)
      then py_int py (row_get r ''Total Units'' (PyInt 0)) else Inr 0)"

text \<open>The body of the \<^verbatim>\<open>try\<close> block of \<^verbatim>\<open>get_cached_hpd_data\<close>.\<close>

definition reconstruct_building :: "builtins \<Rightarrow> row \<Rightarrow> Address \<Rightarrow> py_error + HPDBuilding" where
  "reconstruct_building py r addr =
     (case cached_b_units py r of
        Inl e \<Rightarrow> Inl e
      | Inr units \<Rightarrow>
         (case cached_total_units py r of
            Inl e \<Rightarrow> Inl e
          | Inr n_units \<Rightarrow>
              Inr \<lparr>building_id = Some (py_str py (row_get r ''Building ID'' (PyStr []))),
                   bin = Some (py_str py (row_get r ''BIN'' (PyStr []))),
                   bbl = Some (py_str py (row_get r ''BBL'' (PyStr []))),
                   bldg_address = addr,
                   bldg_total_units = n_units,
                   residential_units = n_units,
                   b_units = units,
                   bldg_has_b_units = (0 < length units),
                   building_class =
                     (if notna (row_get r ''Building Class'' PyNone)
                      then Some (py_str py (row_get r ''Building Class'' (PyStr []))) else None),
                   registration_id = None,
                   landlord_name = None,
                   landlord_address = None\<rparr>))"

definition get_cached_hpd_data :: "builtins \<Rightarrow> cache_data \<Rightarrow> Address \<Rightarrow> HPDBuilding option" where
  "get_cached_hpd_data py cache addr =
     (let key = cache_normalize_address addr in
      case map_of cache key of
        None \<Rightarrow> None
      | Some r \<Rightarrow> (case reconstruct_building py r addr of
                     Inl e \<Rightarrow> None
                   | Inr building \<Rightarrow> Some building))"

text \<open>
  \<^verbatim>\<open>_load_cache\<close>. The argument is the table read from the spreadsheet, \<open>None\<close> when the
  file is missing or unreadable. The rows are entered under the key built from their
  \<^verbatim>\<open>Street\<close> and \<^verbatim>\<open>Borough\<close> cells; a row without these columns (\<^verbatim>\<open>KeyError\<close>) or with a
  cell that is not a string (\<^verbatim>\<open>AttributeError\<close>) ends the loading, and the rows entered
  before it stay.
\<close>

definition str_cell :: "row \<Rightarrow> string \<Rightarrow> py_error + string" where
  "str_cell r column =
     (case map_of r column of
        None \<Rightarrow> Inl KeyError
      | Some c \<Rightarrow> (case c of PyStr s \<Rightarrow> Inr s | _ \<Rightarrow> Inl AttributeError))"

definition loaded_key :: "row \<Rightarrow> py_error + string" where
  "loaded_key r =
     (case str_cell r ''Street'' of
        Inl e \<Rightarrow> Inl e
      | Inr st \<Rightarrow>
          (case str_cell r ''Borough'' of
             Inl e \<Rightarrow> Inl e
           | Inr b \<Rightarrow> Inr (upper st @ '', '' @ upper b)))"

fun load_rows :: "row list \<Rightarrow> cache_data \<Rightarrow> cache_data" where
  "load_rows [] cache = cache"
| "load_rows (r # rs) cache =
     (case loaded_key r of
        Inl e \<Rightarrow> cache
      | Inr key \<Rightarrow> load_rows rs (AList.update key r cache))"

definition load_cache :: "row list option \<Rightarrow> cache_data" where
  "load_cache table = (case table of None \<Rightarrow> [] | Some rows \<Rightarrow> load_rows rows [])"

text \<open>One spreadsheet row built by \<^verbatim>\<open>save_to_cache\<close>; \<open>stamp\<close> is the formatted clock reading.\<close>

definition opt_cell :: "('a \<Rightarrow> cell) \<Rightarrow> 'a option \<Rightarrow> cell" where
  "opt_cell f x = (case x of None \<Rightarrow> PyNone | Some v \<Rightarrow> f v)"

definition b_unit_label :: "HPDBUnit \<Rightarrow> string" where
  "b_unit_label b = ''B'' @ (case unit_number b of None \<Rightarrow> ''None'' | Some u \<Rightarrow> u)"

definition cache_row :: "string \<Rightarrow> EnrichedProperty \<Rightarrow> HPDBuilding \<Rightarrow> row" where
  "cache_row stamp prop building =
     (let zillow = zillow_data prop in
      [(''Street'', PyStr (street (address zillow))),
       (''Borough'', PyStr (str_or (borough (address zillow)) ''Brooklyn'')),
       (''Zillow Price'', opt_cell PyFloat (price zillow)),
       (''Bedrooms'', opt_cell PyInt (bedrooms zillow)),
       (''Bathrooms'', opt_cell PyFloat (bathrooms zillow)),
       (''Zillow URL'', PyStr (str_or (url zillow) ''N/A'')),
       (''B Unit Count'', PyInt (int (length (b_units building)))),
       (''Has B Units'', PyStr (if bldg_has_b_units building then ''Yes'' else ''No'')),
       (''B Unit Numbers'',
          PyStr (if b_units building \<noteq> [] then join '', '' (map b_unit_label (b_units building))
                 else ''N/A'')),
       (''Match Confidence'', PyStr (str_or (match_confidence prop) ''N/A'')),
       (''Scraped Date'', PyStr stamp)])"

text \<open>
  The loop of \<^verbatim>\<open>save_to_cache\<close> over the enriched properties. The state is the in-memory
  dictionary and the table \<^verbatim>\<open>new_data\<close> being assembled; \<open>clock\<close> gives the time stamp of
  the row that becomes the \<open>n\<close>-th line of the table.
\<close>

fun save_loop :: "(nat \<Rightarrow> string) \<Rightarrow> EnrichedProperty list \<Rightarrow> cache_data \<times> row list
                    \<Rightarrow> cache_data \<times> row list" where
  "save_loop clock [] acc = acc"
| "save_loop clock (prop # props) (cache, new_data) =
     (case hpd_data prop of
        None \<Rightarrow> save_loop clock props (cache, new_data)
      | Some building \<Rightarrow>
          if \<not> hpd_match_found prop then save_loop clock props (cache, new_data)
          else let key = cache_normalize_address (address (zillow_data prop)) in
               if map_of cache key \<noteq> None then save_loop clock props (cache, new_data)
               else let r = cache_row (clock (length new_data)) prop building in
                    save_loop clock props (AList.update key r cache, new_data @ [r]))"

text \<open>
  \<^verbatim>\<open>save_to_cache\<close> returns the dictionary after the call and the table handed to the
  spreadsheet writer (\<open>None\<close> when the call returns before writing).
\<close>

definition save_to_cache :: "(nat \<Rightarrow> string) \<Rightarrow> cache_data \<Rightarrow> EnrichedProperty list
                               \<Rightarrow> cache_data \<times> row list option" where
  "save_to_cache clock cache enriched_properties =
     (if enriched_properties = [] then (cache, None)
      else let (cache', new_data) = save_loop clock enriched_properties (cache, map snd cache)
           in (cache', Some new_data))"


section \<open>The matcher (matcher.py)\<close>

text \<open>
  The matcher works against three collaborators that are not part of this module and are
  parameters of the model: the string similarity \<^verbatim>\<open>fuzz.ratio\<close>, the Python built-ins
  above, and the HPD lookup \<^verbatim>\<open>search_by_address\<close>. A lookup may return a building,
  return \<^verbatim>\<open>None\<close> or raise; its answer may depend on the calls made before it, which
  the matcher state records.
\<close>

record collaborators =
  fuzz_ratio :: "string \<Rightarrow> string \<Rightarrow> int"
  py :: builtins
  search_by_address :: "Address list \<Rightarrow> Address \<Rightarrow> py_error + HPDBuilding option"

record matcher_state =
  new_hpd_data :: "(string \<times> HPDBuilding) list"
  scraper_calls :: "Address list"

definition match_threshold :: int where
  "match_threshold = 80"

definition both_present :: "string option \<Rightarrow> string option \<Rightarrow> (string \<times> string) option" where
  "both_present x y =
     (case (x, y) of
        (Some a, Some b) \<Rightarrow> if a \<noteq> [] \<and> b \<noteq> [] then Some (a, b) else None
      | _ \<Rightarrow> None)"

definition calculate_address_similarity :: "(string \<Rightarrow> string \<Rightarrow> int) \<Rightarrow> Address \<Rightarrow> Address \<Rightarrow> int" where
  "calculate_address_similarity ratio addr1 addr2 =
     (let norm1 = matcher_normalize_address addr1;
          norm2 = matcher_normalize_address addr2;
          similarity = ratio norm1 norm2;
          similarity =
            (case both_present (borough addr1) (borough addr2) of
               Some (b1, b2) \<Rightarrow> if upper b1 = upper b2 then min 100 (similarity + 10) else similarity
             | None \<Rightarrow> similarity);
          similarity =
            (case both_present (zip_code addr1) (zip_code addr2) of
               Some (z1, z2) \<Rightarrow> if z1 = z2 then min 100 (similarity + 10) else similarity
             | None \<Rightarrow> similarity)
      in similarity)"

definition address_str :: "ZillowProperty \<Rightarrow> string" where
  "address_str z =
     street (address z) @ '', '' @ str_or (borough (address z)) ''Brooklyn'' @ '', NY''"

definition new_enriched :: "ZillowProperty \<Rightarrow> EnrichedProperty" where
  "new_enriched z =
     \<lparr>zillow_data = z, hpd_data = None, hpd_match_found = False, has_b_units = False,
      b_unit_count = 0, total_units = 0, meets_criteria = False, match_confidence = None,
      prop_notes = None\<rparr>"

text \<open>The block under \<^verbatim>\<open>if hpd_building:\<close>, the similarity gate and the confidence tier.\<close>

definition verify_match :: "(string \<Rightarrow> string \<Rightarrow> int) \<Rightarrow> ZillowProperty \<Rightarrow> HPDBuilding
                              \<Rightarrow> EnrichedProperty \<Rightarrow> EnrichedProperty" where
  "verify_match ratio z hpd_building enriched =
     (let similarity = calculate_address_similarity ratio (address z) (bldg_address hpd_building) in
      if similarity \<ge> match_threshold then
        enriched\<lparr>hpd_data := Some hpd_building,
                 hpd_match_found := True,
                 has_b_units := bldg_has_b_units hpd_building,
                 b_unit_count := int (length (b_units hpd_building)),
                 total_units := bldg_total_units hpd_building,
                 match_confidence :=
                   Some (if similarity \<ge> 95 then ''High''
                         else if similarity \<ge> 85 then ''Medium'' else ''Low'')\<rparr>
      else enriched)"

text \<open>
  The \<^verbatim>\<open>try\<close> block of \<^verbatim>\<open>match_property\<close>: \<open>Inl\<close> is an exception leaving the block.
  The state reached is returned in both cases.
\<close>

definition match_property_try :: "collaborators \<Rightarrow> cache_data \<Rightarrow> matcher_state \<Rightarrow> ZillowProperty
                                    \<Rightarrow> (py_error + EnrichedProperty) \<times> matcher_state" where
  "match_property_try co cache st z =
     (let enriched = new_enriched z in
      case get_cached_hpd_data (py co) cache (address z) of
        Some cached_building \<Rightarrow> (Inr (verify_match (fuzz_ratio co) z cached_building enriched), st)
      | None \<Rightarrow>
         (let st1 = st\<lparr>scraper_calls := scraper_calls st @ [address z]\<rparr> in
          case search_by_address co (scraper_calls st) (address z) of
            Inl e \<Rightarrow> (Inl e, st1)
          | Inr None \<Rightarrow> (Inr enriched, st1)
          | Inr (Some hpd_building) \<Rightarrow>
              (Inr (verify_match (fuzz_ratio co) z hpd_building enriched),
               st1\<lparr>new_hpd_data := AList.update (address_str z) hpd_building (new_hpd_data st1)\<rparr>)))"

text \<open>\<^verbatim>\<open>match_property\<close>: the \<^verbatim>\<open>except\<close> clause logs and falls through to the return.\<close>

definition match_property :: "collaborators \<Rightarrow> cache_data \<Rightarrow> matcher_state \<Rightarrow> ZillowProperty
                                \<Rightarrow> EnrichedProperty \<times> matcher_state" where
  "match_property co cache st z =
     (case match_property_try co cache st z of
        (Inl e, st') \<Rightarrow> (new_enriched z, st')
      | (Inr enriched, st') \<Rightarrow> (enriched, st'))"

text \<open>
  One batch: \<^verbatim>\<open>match_property\<close> never suspends, so the gathered coroutines run one
  after the other in list order.
\<close>

fun gather :: "collaborators \<Rightarrow> cache_data \<Rightarrow> ZillowProperty list \<Rightarrow> matcher_state
                 \<Rightarrow> EnrichedProperty list \<times> matcher_state" where
  "gather co cache [] st = ([], st)"
| "gather co cache (z # zs) st =
     (let (e, st1) = match_property co cache st z;
          (es, st2) = gather co cache zs st1
      in (e # es, st2))"

text \<open>The loop over \<^verbatim>\<open>range(0, len(zillow_properties), batch_size)\<close>, for a positive step;
  the list argument is the part of the input from index \<open>i\<close> on.\<close>

function batch_loop :: "collaborators \<Rightarrow> cache_data \<Rightarrow> nat \<Rightarrow> ZillowProperty list \<Rightarrow> matcher_state
                 \<Rightarrow> EnrichedProperty list \<times> matcher_state" where
  "batch_loop co cache batch_size zs st =
     (if zs = [] \<or> batch_size = 0 then ([], st)
      else let (results, st1) = gather co cache (take batch_size zs) st;
               (more, st2) = batch_loop co cache batch_size (drop batch_size zs) st1
           in (results @ more, st2))"
  by pat_completeness auto
termination
  by (relation "measure (\<lambda>(co, cache, batch_size, zs, st). length zs)") auto

declare batch_loop.simps [simp del]

record batch_result =
  enriched_properties :: "EnrichedProperty list"
  final_state :: matcher_state
  final_cache :: cache_data
  written_table :: "row list option"

text \<open>
  \<^verbatim>\<open>match_properties_batch\<close>. A zero step makes \<^verbatim>\<open>range\<close> raise, a negative one gives an
  empty range.
\<close>

definition match_properties_batch :: "collaborators \<Rightarrow> (nat \<Rightarrow> string) \<Rightarrow> cache_data \<Rightarrow> matcher_state
     \<Rightarrow> ZillowProperty list \<Rightarrow> int \<Rightarrow> py_error + batch_result" where
  "match_properties_batch co clock cache st zillow_properties batch_size =
     (if batch_size = 0 then Inl ValueError
      else let (enriched, st') =
                 (if batch_size < 0 then ([], st)
                  else batch_loop co cache (nat batch_size) zillow_properties st);
               to_save = filter (\<lambda>p. hpd_match_found p \<and>
                                   map_of (new_hpd_data st') (address_str (zillow_data p)) \<noteq> None)
                                enriched;
               (cache', written) =
                 (if to_save \<noteq> [] then save_to_cache clock cache to_save else (cache, None))
           in Inr \<lparr>enriched_properties = enriched, final_state = st',
                   final_cache = cache', written_table = written\<rparr>)"

section \<open>The filter (filters.py, config.py)\<close>

record FilterCriteria =
  min_price :: rat
  max_price :: rat
  min_bedrooms :: int
  min_bathrooms :: rat
  min_units :: int
  require_b_units :: bool
  boroughs :: "string list option"
  property_types :: "string list option"

definition meets_price_criteria :: "FilterCriteria \<Rightarrow> EnrichedProperty \<Rightarrow> bool" where
  "meets_price_criteria criteria property =
     (case price (zillow_data property) of
        None \<Rightarrow> False
      | Some pr \<Rightarrow> min_price criteria \<le> pr \<and> pr \<le> max_price criteria)"

definition meets_bedroom_criteria :: "FilterCriteria \<Rightarrow> EnrichedProperty \<Rightarrow> bool" where
  "meets_bedroom_criteria criteria property =
     (case bedrooms (zillow_data property) of
        None \<Rightarrow> False
      | Some b \<Rightarrow> b \<ge> min_bedrooms criteria)"

definition meets_bathroom_criteria :: "FilterCriteria \<Rightarrow> EnrichedProperty \<Rightarrow> bool" where
  "meets_bathroom_criteria criteria property =
     (case bathrooms (zillow_data property) of
        None \<Rightarrow> False
      | Some b \<Rightarrow> b \<ge> min_bathrooms criteria)"

definition meets_unit_criteria :: "FilterCriteria \<Rightarrow> EnrichedProperty \<Rightarrow> bool" where
  "meets_unit_criteria criteria property =
     (if \<not> hpd_match_found property then False
      else total_units property \<ge> min_units criteria)"

definition has_required_b_units :: "FilterCriteria \<Rightarrow> EnrichedProperty \<Rightarrow> bool" where
  "has_required_b_units criteria property =
     (if \<not> require_b_units criteria then True else has_b_units property)"

text \<open>\<^verbatim>\<open>not xs\<close> on an optional list: \<^verbatim>\<open>None\<close> and the empty list are falsy.\<close>

definition list_or_empty :: "'a list option \<Rightarrow> 'a list" where
  "list_or_empty xs = (case xs of None \<Rightarrow> [] | Some l \<Rightarrow> l)"

definition meets_borough_criteria :: "FilterCriteria \<Rightarrow> EnrichedProperty \<Rightarrow> bool" where
  "meets_borough_criteria criteria property =
     (if list_or_empty (boroughs criteria) = [] then True
      else case borough (address (zillow_data property)) of
             None \<Rightarrow> False
           | Some b \<Rightarrow> if b = [] then False else b \<in> set (list_or_empty (boroughs criteria)))"

definition meets_property_type_criteria :: "FilterCriteria \<Rightarrow> EnrichedProperty \<Rightarrow> bool" where
  "meets_property_type_criteria criteria property =
     (if list_or_empty (property_types criteria) = [] then True
      else case property_type (zillow_data property) of
             None \<Rightarrow> False
           | Some t \<Rightarrow>
               if t = [] then False
               else let property_type_lower = lower t in
                    list_ex (\<lambda>pt. contains (lower pt) property_type_lower)
                            (list_or_empty (property_types criteria)))"

text \<open>
  Floating-point arithmetic is a parameter of the filter: the conversion of an integer to
  a float, which raises \<^verbatim>\<open>OverflowError\<close> for an integer beyond the float range and rounds
  otherwise; the float nearest to a decimal value, as \<^verbatim>\<open>float(s)\<close> computes it; and the
  rounded sum and quotient of two floats. No infinity arises in the score: every quotient
  has a divisor of at least 1, and every sum adds a float of an integer to a finite float.
\<close>

record float_ops =
  float_of_int :: "int \<Rightarrow> py_error + rat"
  float_of_decimal :: "rat \<Rightarrow> rat"
  float_add :: "rat \<Rightarrow> rat \<Rightarrow> rat"
  float_div :: "rat \<Rightarrow> rat \<Rightarrow> rat"

text \<open>\<^verbatim>\<open>score += k\<close> for a float \<open>score\<close> and an integer \<open>k\<close>.\<close>

definition add_int :: "float_ops \<Rightarrow> rat \<Rightarrow> int \<Rightarrow> py_error + rat" where
  "add_int fo score k =
     (case float_of_int fo k of
        Inl e \<Rightarrow> Inl e
      | Inr f \<Rightarrow> Inr (float_add fo score f))"

text \<open>\<^verbatim>\<open>price / total_units\<close> for a float price and an integer unit count that is not zero.\<close>

definition div_int :: "float_ops \<Rightarrow> rat \<Rightarrow> int \<Rightarrow> py_error + rat" where
  "div_int fo x k =
     (case float_of_int fo k of
        Inl e \<Rightarrow> Inl e
      | Inr f \<Rightarrow> Inr (float_div fo x f))"

text \<open>The two tiers of the score, as the integers the source adds.\<close>

definition price_per_unit_points :: "rat \<Rightarrow> int" where
  "price_per_unit_points price_per_unit =
     (if price_per_unit \<le> 100000 then 15
      else if price_per_unit \<le> 150000 then 10
      else if price_per_unit \<le> 200000 then 5 else 0)"

definition days_on_market_points :: "int \<Rightarrow> int" where
  "days_on_market_points d =
     (if d \<le> 7 then 10 else if d \<le> 14 then 7 else if d \<le> 30 then 5 else 0)"

text \<open>
  \<^verbatim>\<open>calculate_investment_score\<close>. A tier that adds nothing leaves the score untouched, as
  the missing \<^verbatim>\<open>else\<close> of the source does. \<open>Inl\<close> is the exception that leaves the
  function.
\<close>

definition add_points :: "float_ops \<Rightarrow> rat \<Rightarrow> int \<Rightarrow> py_error + rat" where
  "add_points fo score k = (if k = 0 then Inr score else add_int fo score k)"

definition score_b_units :: "float_ops \<Rightarrow> EnrichedProperty \<Rightarrow> py_error + rat" where
  "score_b_units fo property =
     (case (if has_b_units property then add_int fo 0 30 else Inr 0) of
        Inl e \<Rightarrow> Inl e
      | Inr score \<Rightarrow> add_int fo score (min (b_unit_count property * 10) 30))"

definition score_total_units :: "float_ops \<Rightarrow> EnrichedProperty \<Rightarrow> rat \<Rightarrow> py_error + rat" where
  "score_total_units fo property score =
     (if total_units property > 0
      then add_int fo score (min (total_units property * 5) 25) else Inr score)"

definition score_price_per_unit :: "float_ops \<Rightarrow> EnrichedProperty \<Rightarrow> rat \<Rightarrow> py_error + rat" where
  "score_price_per_unit fo property score =
     (case price (zillow_data property) of
        None \<Rightarrow> Inr score
      | Some pr \<Rightarrow>
          if pr \<noteq> 0 \<and> total_units property > 0
          then (case div_int fo pr (total_units property) of
                  Inl e \<Rightarrow> Inl e
                | Inr price_per_unit \<Rightarrow>
                    add_points fo score (price_per_unit_points price_per_unit))
          else Inr score)"

definition score_days_on_market :: "float_ops \<Rightarrow> EnrichedProperty \<Rightarrow> rat \<Rightarrow> py_error + rat" where
  "score_days_on_market fo property score =
     (case days_on_market (zillow_data property) of
        None \<Rightarrow> Inr score
      | Some d \<Rightarrow> add_points fo score (days_on_market_points d))"

definition calculate_investment_score :: "float_ops \<Rightarrow> EnrichedProperty \<Rightarrow> py_error + rat" where
  "calculate_investment_score fo property =
     (case score_b_units fo property of
        Inl e \<Rightarrow> Inl e
      | Inr score \<Rightarrow>
     (case score_total_units fo property score of
        Inl e \<Rightarrow> Inl e
      | Inr score \<Rightarrow>
     (case score_price_per_unit fo property score of
        Inl e \<Rightarrow> Inl e
      | Inr score \<Rightarrow>
     (case score_days_on_market fo property score of
        Inl e \<Rightarrow> Inl e
      | Inr score \<Rightarrow> Inr (min score 100)))))"

definition passes_all :: "FilterCriteria \<Rightarrow> EnrichedProperty \<Rightarrow> bool" where
  "passes_all criteria property =
     (meets_price_criteria criteria property \<and>
      meets_bedroom_criteria criteria property \<and>
      meets_bathroom_criteria criteria property \<and>
      meets_unit_criteria criteria property \<and>
      has_required_b_units criteria property \<and>
      meets_borough_criteria criteria property \<and>
      meets_property_type_criteria criteria property)"

text \<open>
  \<^verbatim>\<open>f"{x:.1f}"\<close>: the decimal numeral with one digit after the point nearest to \<open>x\<close>,
  ties going to the even digit.
\<close>

definition round_half_even :: "rat \<Rightarrow> int" where
  "round_half_even q =
     (let f = \<lfloor>q\<rfloor>; d = q - of_int f in
      if d < 1 / 2 then f else if 1 / 2 < d then f + 1 else if even f then f else f + 1)"

definition format_1f :: "rat \<Rightarrow> string" where
  "format_1f x =
     (let tenths = nat (round_half_even (\<bar>x\<bar> * 10)) in
      (if x < 0 then ''-'' else []) @ str_of_nat (tenths div 10) @ ''.'' @
      [digit_char (tenths mod 10)])"

text \<open>
  The loop of \<^verbatim>\<open>filter_properties\<close>: a passing record is scored, marked and given its
  note; an exception of the scoring leaves the loop and the function.
\<close>

fun filter_loop :: "float_ops \<Rightarrow> FilterCriteria \<Rightarrow> EnrichedProperty list
                      \<Rightarrow> py_error + EnrichedProperty list" where
  "filter_loop fo criteria [] = Inr []"
| "filter_loop fo criteria (property # properties) =
     (if passes_all criteria property then
        (case calculate_investment_score fo property of
           Inl e \<Rightarrow> Inl e
         | Inr score \<Rightarrow>
             (case filter_loop fo criteria properties of
                Inl e \<Rightarrow> Inl e
              | Inr filtered \<Rightarrow>
                  Inr (property\<lparr>meets_criteria := True,
                         prop_notes := Some (''Investment Score: '' @ format_1f score @ ''/100'')\<rparr>
                       # filtered)))
      else filter_loop fo criteria properties)"

text \<open>\<^verbatim>\<open>s.split(sep)\<close> for a non-empty separator.\<close>

fun split_sep :: "string \<Rightarrow> string \<Rightarrow> string \<Rightarrow> string list" where
  "split_sep sep cur [] = [cur]"
| "split_sep sep cur (c # cs) =
     (if sep \<noteq> [] \<and> prefix sep (c # cs) then cur # split_sep sep [] (drop (length sep) (c # cs))
      else split_sep sep (cur @ [c]) cs)"

definition is_digit :: "char \<Rightarrow> bool" where
  "is_digit c = (c \<in> set digits)"

text \<open>
  \<^verbatim>\<open>float(s)\<close> on decimal numerals: optional surrounding white space, an optional sign,
  digits with an optional point; the result is the float nearest to the value written.
  Every sort key written by this module has that form; the other spellings Python accepts
  (exponents, \<^verbatim>\<open>inf\<close>, \<^verbatim>\<open>nan\<close>, digit grouping) are not modelled and are answered like a
  malformed numeral.
\<close>

definition float_body :: "float_ops \<Rightarrow> bool \<Rightarrow> string \<Rightarrow> py_error + rat" where
  "float_body fo neg body =
     (let ip = takeWhile is_digit body;
          rest = dropWhile is_digit body;
          sgn = (if neg then - 1 else 1)
      in case rest of
           [] \<Rightarrow> if ip = [] then Inl ValueError
                 else Inr (float_of_decimal fo (sgn * of_nat (nat_of_digits ip)))
         | c # fp \<Rightarrow>
             if c = CHR ''.'' \<and> list_all is_digit fp \<and> (ip \<noteq> [] \<or> fp \<noteq> [])
             then Inr (float_of_decimal fo
                         (sgn * (of_nat (nat_of_digits ip)
                                 + of_nat (nat_of_digits fp) / 10 ^ length fp)))
             else Inl ValueError)"

definition py_float :: "float_ops \<Rightarrow> string \<Rightarrow> py_error + rat" where
  "py_float fo s =
     (case strip s of
        [] \<Rightarrow> float_body fo False []
      | c # r \<Rightarrow> if c = CHR ''-'' then float_body fo True r
                 else if c = CHR ''+'' then float_body fo False r
                 else float_body fo False (c # r))"

text \<open>The sort key \<^verbatim>\<open>float(p.notes.split(': ')[1].split('/')[0]) if p.notes else 0\<close>.\<close>

definition note_key :: "float_ops \<Rightarrow> EnrichedProperty \<Rightarrow> py_error + rat" where
  "note_key fo p =
     (case prop_notes p of
        None \<Rightarrow> Inr 0
      | Some n \<Rightarrow>
          if n = [] then Inr 0
          else case split_sep '': '' [] n of
                 a # b # rest \<Rightarrow> py_float fo (hd (split_sep ''/'' [] b))
               | _ \<Rightarrow> Inl IndexError)"

text \<open>The keys of all records, computed before the list is rearranged; the first failure wins.\<close>

fun note_keys :: "float_ops \<Rightarrow> EnrichedProperty list \<Rightarrow> py_error + rat list" where
  "note_keys fo [] = Inr []"
| "note_keys fo (p # ps) =
     (case note_key fo p of
        Inl e \<Rightarrow> Inl e
      | Inr k \<Rightarrow> (case note_keys fo ps of Inl e \<Rightarrow> Inl e | Inr ks \<Rightarrow> Inr (k # ks)))"

text \<open>
  \<^verbatim>\<open>filter_properties\<close>. \<^verbatim>\<open>list.sort(key=..., reverse=True)\<close> is a stable sort by
  decreasing key: records with equal keys keep their order. The function returns the
  sorted list or raises; the marks it leaves on the records of its argument when it raises
  are not part of the model.
\<close>

definition filter_properties :: "float_ops \<Rightarrow> FilterCriteria \<Rightarrow> EnrichedProperty list
                                   \<Rightarrow> py_error + EnrichedProperty list" where
  "filter_properties fo criteria properties =
     (case filter_loop fo criteria properties of
        Inl e \<Rightarrow> Inl e
      | Inr filtered \<Rightarrow>
          (case note_keys fo filtered of
             Inl e \<Rightarrow> Inl e
           | Inr keys \<Rightarrow> Inr (map snd (sort_key (\<lambda>(k, p). - k) (zip keys filtered)))))"

section \<open>Auxiliary notions for the proofs\<close>

text \<open>A word as \<^verbatim>\<open>split()\<close> returns it: non-empty and free of white space.\<close>

definition word_ok :: "string \<Rightarrow> bool" where
  "word_ok w = (w \<noteq> [] \<and> list_all (\<lambda>c. \<not> isspace c) w)"

text \<open>An address with only the street (and possibly the borough) filled in.\<close>

definition addr_of :: "string \<Rightarrow> string option \<Rightarrow> Address" where
  "addr_of st b = \<lparr>street = st, city = ''New York'', state = ''NY'', zip_code = None, borough = b\<rparr>"

text \<open>
  Sample collaborators for the concrete instances below: a similarity that is 100 on equal
  strings and otherwise the share of the common prefix, and a lookup that knows one
  building, fails on one street and finds nothing elsewhere.
\<close>

definition prefix_ratio :: "string \<Rightarrow> string \<Rightarrow> int" where
  "prefix_ratio s t =
     (if s = t then 100
      else int (200 * length (longest_common_prefix s t) div (length s + length t)))"

definition sample_builtins :: builtins where
  "sample_builtins = \<lparr>str_float = (\<lambda>q. ''0.0''), int_str = (\<lambda>s. None)\<rparr>"

definition gold_building :: HPDBuilding where
  "gold_building =
     \<lparr>building_id = Some ''4711'', bin = None, bbl = None,
      bldg_address = addr_of ''100 GOLD'' (Some ''MANHATTAN''),
      bldg_total_units = 3, residential_units = 3,
      b_units = [\<lparr>unit_number = Some ''B1'', unit_type = Some ''Basement'', is_b_unit = True\<rparr>,
                 \<lparr>unit_number = Some ''B2'', unit_type = Some ''Basement'', is_b_unit = True\<rparr>],
      bldg_has_b_units = True, building_class = None, registration_id = None,
      landlord_name = None, landlord_address = None\<rparr>"

definition sample_lookup :: "Address list \<Rightarrow> Address \<Rightarrow> py_error + HPDBuilding option" where
  "sample_lookup calls a =
     (if street a = ''100 Gold Street'' then Inr (Some gold_building)
      else if street a = ''1 Gold Street'' then Inr (Some gold_building)
      else if street a = ''7 Elm Road'' then Inl (OtherError ''timeout'')
      else Inr None)"

definition sample_collaborators :: collaborators where
  "sample_collaborators =
     \<lparr>fuzz_ratio = prefix_ratio, py = sample_builtins, search_by_address = sample_lookup\<rparr>"

definition listing :: "string \<Rightarrow> string option \<Rightarrow> rat option \<Rightarrow> ZillowProperty" where
  "listing st b pr =
     \<lparr>zpid = None, address = addr_of st b, price = pr, bedrooms = Some 6,
      bathrooms = Some (9 / 2), square_feet = None, lot_size = None, year_built = None,
      property_type = Some ''Multi Family Home'', listing_status = ''For Sale'',
      days_on_market = Some 10, url = None, description = None\<rparr>"

definition gold_listing :: ZillowProperty where
  "gold_listing = listing ''100 Gold Street'' (Some ''Manhattan'') (Some 2000000)"

definition sample_cache :: cache_data where
  "sample_cache =
     [(''100 GOLD STREET, MANHATTAN'',
       [(''Street'', PyStr ''100 Gold Street''), (''Borough'', PyStr ''Manhattan''),
        (''B Unit Count'', PyInt 2), (''Total Units'', PyFloat 3),
        (''Match Confidence'', PyStr ''Low'')])]"

definition empty_state :: matcher_state where
  "empty_state = \<lparr>new_hpd_data = [], scraper_calls = []\<rparr>"

text \<open>What \<^verbatim>\<open>save_to_cache\<close> looks at in an enriched property.\<close>

definition saveable :: "EnrichedProperty \<Rightarrow> bool" where
  "saveable p = (hpd_match_found p \<and> hpd_data p \<noteq> None)"

definition key_of :: "EnrichedProperty \<Rightarrow> string" where
  "key_of p = cache_normalize_address (address (zillow_data p))"

definition matched_with :: "ZillowProperty \<Rightarrow> HPDBuilding \<Rightarrow> EnrichedProperty" where
  "matched_with z b =
     \<lparr>zillow_data = z, hpd_data = Some b, hpd_match_found = True,
      has_b_units = bldg_has_b_units b, b_unit_count = int (length (b_units b)),
      total_units = bldg_total_units b, meets_criteria = False,
      match_confidence = Some ''High'', prop_notes = None\<rparr>"

definition sample_clock :: "nat \<Rightarrow> string" where
  "sample_clock n = ''2025-01-01 00:00:0'' @ [digit_char n]"

definition sample_props :: "EnrichedProperty list" where
  "sample_props =
     [matched_with (listing ''1 Main St'' None (Some 900000)) gold_building,
      new_enriched (listing ''7 Elm Road'' None None),
      matched_with gold_listing gold_building,
      matched_with (listing '' 1 main st '' (Some []) None) gold_building]"

text \<open>
  The properties of floating-point arithmetic that the proofs rely on: integers of
  magnitude up to \<open>2^53\<close> are floats, so converting them and reading them from a numeral
  is exact, and so is a sum of two of them that stays in that range.
\<close>

definition exact_ops :: "float_ops \<Rightarrow> bool" where
  "exact_ops fo =
     ((\<forall>k. \<bar>k\<bar> \<le> 2 ^ 53 \<longrightarrow> float_of_int fo k = Inr (of_int k))
      \<and> (\<forall>k. \<bar>k\<bar> \<le> 2 ^ 53 \<longrightarrow> float_of_decimal fo (of_int k) = of_int k)
      \<and> (\<forall>x y. \<bar>x\<bar> \<le> 2 ^ 53 \<and> \<bar>y\<bar> \<le> 2 ^ 53 \<and> \<bar>x + y\<bar> \<le> 2 ^ 53
             \<longrightarrow> float_add fo (of_int x) (of_int y) = of_int (x + y)))"

text \<open>Unit counts small enough for the score to be computed without rounding.\<close>

definition exact_counts :: "EnrichedProperty \<Rightarrow> bool" where
  "exact_counts p = (- (2 ^ 48) \<le> b_unit_count p \<and> total_units p \<le> 2 ^ 52)"

text \<open>
  Float operations without rounding, for the concrete instances below: they agree with
  the floating-point ones wherever the exact result is a float, and none of the
  comparisons made in these instances depends on a rounding.
\<close>

definition unrounded_ops :: float_ops where
  "unrounded_ops =
     \<lparr>float_of_int = (\<lambda>k. if \<bar>k\<bar> < 2 ^ 1024 then Inr (of_int k) else Inl OverflowError),
      float_of_decimal = (\<lambda>q. q),
      float_add = (\<lambda>x y. x + y),
      float_div = (\<lambda>x y. x / y)\<rparr>"

text \<open>The score of a record whose scoring returns.\<close>

definition score_of :: "float_ops \<Rightarrow> EnrichedProperty \<Rightarrow> rat" where
  "score_of fo p = (case calculate_investment_score fo p of Inl e \<Rightarrow> 0 | Inr s \<Rightarrow> s)"

text \<open>A passing record as \<^verbatim>\<open>filter_properties\<close> leaves it: marked, with its note.\<close>

definition with_note :: "float_ops \<Rightarrow> EnrichedProperty \<Rightarrow> EnrichedProperty" where
  "with_note fo p =
     p\<lparr>meets_criteria := True,
       prop_notes := Some (''Investment Score: '' @ format_1f (score_of fo p) @ ''/100'')\<rparr>"

text \<open>
  The score as claim C5 words it: the price tier counts only for a positive price. The
  quotient is the one the program computes.
\<close>

definition claimed_score :: "float_ops \<Rightarrow> EnrichedProperty \<Rightarrow> rat" where
  "claimed_score fo p =
     min 100
       ((if has_b_units p then 30 else 0)
        + of_int (min (b_unit_count p * 10) 30)
        + (if 0 < total_units p then of_int (min (total_units p * 5) 25) else 0)
        + (case price (zillow_data p) of
             None \<Rightarrow> 0
           | Some pr \<Rightarrow>
               if 0 < pr \<and> 0 < total_units p
               then (if float_div fo pr (of_int (total_units p)) \<le> 100000 then 15
                     else if float_div fo pr (of_int (total_units p)) \<le> 150000 then 10
                     else if float_div fo pr (of_int (total_units p)) \<le> 200000 then 5 else 0)
               else 0)
        + (case days_on_market (zillow_data p) of
             None \<Rightarrow> 0
           | Some d \<Rightarrow> if d \<le> 7 then 10 else if d \<le> 14 then 7 else if d \<le> 30 then 5 else 0))"

text \<open>
  The gate as claim C6 words it: the borough is a member of a configured allow-list, the
  property type contains an allowed substring of a configured list, compared in lower case.
\<close>

definition claimed_gate :: "FilterCriteria \<Rightarrow> EnrichedProperty \<Rightarrow> bool" where
  "claimed_gate crit p =
     ((case price (zillow_data p) of
         None \<Rightarrow> False | Some pr \<Rightarrow> min_price crit \<le> pr \<and> pr \<le> max_price crit)
      \<and> (case bedrooms (zillow_data p) of None \<Rightarrow> False | Some b \<Rightarrow> min_bedrooms crit \<le> b)
      \<and> (case bathrooms (zillow_data p) of None \<Rightarrow> False | Some b \<Rightarrow> min_bathrooms crit \<le> b)
      \<and> hpd_match_found p \<and> min_units crit \<le> total_units p
      \<and> (if require_b_units crit then has_b_units p else True)
      \<and> (if list_or_empty (boroughs crit) = [] then True
          else case borough (address (zillow_data p)) of
                 None \<Rightarrow> False | Some b \<Rightarrow> b \<in> set (list_or_empty (boroughs crit)))
      \<and> (if list_or_empty (property_types crit) = [] then True
          else case property_type (zillow_data p) of
                 None \<Rightarrow> False
               | Some t \<Rightarrow> list_ex (\<lambda>pt. contains (lower pt) (lower t))
                                    (list_or_empty (property_types crit))))"

text \<open>The criteria that \<^verbatim>\<open>Config\<close> builds when no environment variable is set.\<close>

definition default_criteria :: FilterCriteria where
  "default_criteria =
     \<lparr>min_price = 0, max_price = 2500000, min_bedrooms = 5, min_bathrooms = 4, min_units = 2,
      require_b_units = True,
      boroughs = Some [''Manhattan'', ''Brooklyn'', ''Bronx'', ''Queens''],
      property_types = Some [''Multi Family'', ''Multifamily'']\<rparr>"

definition record_a :: EnrichedProperty where
  "record_a = matched_with gold_listing gold_building"

definition record_b :: EnrichedProperty where
  "record_b = new_enriched (listing ''7 Elm Road'' None None)"

definition record_c :: EnrichedProperty where
  "record_c = matched_with (listing ''1 Main St'' (Some ''Brooklyn'') (Some 250000)) gold_building"

definition record_d :: EnrichedProperty where
  "record_d = matched_with (listing ''9 Oak Ave'' (Some ''Queens'') (Some 2400000)) gold_building"

definition sample_records :: "EnrichedProperty list" where
  "sample_records = [record_a, record_b, record_c, record_d]"

text \<open>A listing offered at a negative price, and criteria whose price range admits it.\<close>

definition negative_price_record :: EnrichedProperty where
  "negative_price_record =
     matched_with (listing ''5 Pine St'' (Some ''Brooklyn'') (Some (- 5))) gold_building"

definition negative_price_criteria :: FilterCriteria where
  "negative_price_criteria = default_criteria\<lparr>min_price := - 10\<rparr>"

text \<open>A listing whose borough is the empty string, and an allow-list that contains it.\<close>

definition empty_borough_record :: EnrichedProperty where
  "empty_borough_record =
     matched_with (listing ''5 Pine St'' (Some []) (Some 1000000)) gold_building"

definition empty_borough_criteria :: FilterCriteria where
  "empty_borough_criteria = default_criteria\<lparr>boroughs := Some [''Brooklyn'', []]\<rparr>"

text \<open>A passing record whose unit count is beyond the float range.\<close>

definition huge_units_record :: EnrichedProperty where
  "huge_units_record = (matched_with gold_listing gold_building)\<lparr>total_units := 2 ^ 1024\<rparr>"

text \<open>The matcher state after a run of listings, one after the other.\<close>

definition state_after :: "collaborators \<Rightarrow> cache_data \<Rightarrow> matcher_state \<Rightarrow> ZillowProperty list
                             \<Rightarrow> matcher_state" where
  "state_after co cache st zs = foldl (\<lambda>s z. snd (match_property co cache s z)) st zs"

text \<open>
  A cache whose rows cannot be rebuilt: their unit count is the text \<^verbatim>\<open>n/a\<close>, which
  \<^verbatim>\<open>int\<close> rejects.
\<close>

definition unreadable_cache :: cache_data where
  "unreadable_cache =
     [(''100 GOLD STREET, MANHATTAN'',
       [(''Street'', PyStr ''100 Gold Street''), (''Borough'', PyStr ''Manhattan''),
        (''B Unit Count'', PyInt 2), (''Total Units'', PyStr ''n/a'')]),
      (''7 ELM ROAD, BROOKLYN'',
       [(''Street'', PyStr ''7 Elm Road''), (''Borough'', PyStr ''Brooklyn''),
        (''B Unit Count'', PyInt 0), (''Total Units'', PyStr ''n/a'')])]"

text \<open>
  The normalised key of the address stored in a cache row, and a matched listing whose
  street begins with a blank.
\<close>

definition row_address_key :: "row \<Rightarrow> string option" where
  "row_address_key r =
     (case (map_of r ''Street'', map_of r ''Borough'') of
        (Some (PyStr st), Some (PyStr b)) \<Rightarrow> Some (cache_normalize_address (addr_of st (Some b)))
      | _ \<Rightarrow> None)"

definition blank_street_record :: EnrichedProperty where
  "blank_street_record =
     matched_with (listing '' 1 Main St'' None (Some 900000))
       (gold_building\<lparr>bldg_address := addr_of '' 1 Main St'' None\<rparr>)"

definition echo_lookup :: "Address list \<Rightarrow> Address \<Rightarrow> py_error + HPDBuilding option" where
  "echo_lookup calls a = Inr (Some (gold_building\<lparr>bldg_address := a\<rparr>))"

definition echo_collaborators :: collaborators where
  "echo_collaborators =
     \<lparr>fuzz_ratio = prefix_ratio, py = sample_builtins, search_by_address = echo_lookup\<rparr>"

text \<open>
  Two runs of the matcher over the listing with the blank, the second one starting from
  the table the first one wrote. The spreadsheet is taken to return the rows as they were
  written.
\<close>

definition blank_street_listing :: ZillowProperty where
  "blank_street_listing = listing '' 1 Main St'' None (Some 900000)"

definition first_run :: "py_error + batch_result" where
  "first_run =
     match_properties_batch echo_collaborators sample_clock (load_cache None) empty_state
       [blank_street_listing] 10"

definition second_run :: "py_error + batch_result" where
  "second_run =
     (case first_run of
        Inl e \<Rightarrow> Inl e
      | Inr r \<Rightarrow>
          match_properties_batch echo_collaborators sample_clock (load_cache (written_table r))
            empty_state [blank_street_listing] 10)"

section \<open>Facts about the string operations\<close>

lemmas str_eval =
  upper_def upper_char_def lower_def lower_char_def ascii_lowercase_def ascii_uppercase_def
  strip_def isspace_def split_ws_def str_or_def

lemmas normalize_eval =
  matcher_normalize_address_def normalize_street_def apply_replacements_def replacements_def
  cache_normalize_address_def addr_of_def

lemma upper_char_not_lower: "upper_char c \<notin> set ascii_lowercase"
  by (auto simp: upper_char_def ascii_lowercase_def ascii_uppercase_def)

lemma upper_char_id: "c \<notin> set ascii_lowercase \<Longrightarrow> upper_char c = c"
  by (auto simp: upper_char_def ascii_lowercase_def ascii_uppercase_def)

lemma replace_absent: "old \<noteq> [] \<Longrightarrow> \<not> contains old s \<Longrightarrow> replace old new s = s"
  by (induction s) auto

lemma set_replace: "set (replace old new s) \<subseteq> set new \<union> set s"
proof (induction old new s rule: replace.induct)
  case (1 old new) then show ?case by auto
next
  case (2 old new c cs)
  have "set (drop (length old) (c # cs)) \<subseteq> set (c # cs)" by (rule set_drop_subset)
  with 2 show ?case by (auto split: if_splits)
qed

lemma split_acc_nospace: "\<forall>c \<in> set w. \<not> isspace c \<Longrightarrow> split_acc cur (w @ rest) = split_acc (cur @ w) rest"
  by (induction w arbitrary: cur) auto

lemma split_acc_words:
  "\<forall>c \<in> set cur. \<not> isspace c \<Longrightarrow> w \<in> set (split_acc cur s) \<Longrightarrow> word_ok w"
proof (induction s arbitrary: cur)
  case Nil
  then show ?case by (auto simp: word_ok_def list_all_iff split: if_splits)
next
  case (Cons a s)
  show ?case
  proof (cases "isspace a")
    case True
    then have "(w = cur \<and> cur \<noteq> []) \<or> w \<in> set (split_acc [] s)"
      using Cons.prems(2) by (auto split: if_splits)
    then show ?thesis
      using Cons.IH[of "[]"] Cons.prems(1) by (auto simp: word_ok_def list_all_iff)
  next
    case False
    then have "w \<in> set (split_acc (cur @ [a]) s)" using Cons.prems(2) by simp
    moreover have "\<forall>c \<in> set (cur @ [a]). \<not> isspace c" using False Cons.prems(1) by auto
    ultimately show ?thesis using Cons.IH by blast
  qed
qed

lemma split_acc_chars: "\<forall>w \<in> set (split_acc cur s). set w \<subseteq> set cur \<union> set s"
  by (induction s arbitrary: cur) (fastforce split: if_splits)+

lemma join_Cons: "ws \<noteq> [] \<Longrightarrow> join sep (w # ws) = w @ sep @ join sep ws"
  by (cases ws) auto

lemma split_join: "\<forall>w \<in> set ws. word_ok w \<Longrightarrow> split_ws (join '' '' ws) = ws"
proof (induction ws)
  case Nil then show ?case by (simp add: split_ws_def)
next
  case (Cons w ws)
  have ns: "\<forall>c \<in> set w. \<not> isspace c" and ne: "w \<noteq> []" using Cons.prems by (auto simp: word_ok_def list_all_iff)
  show ?case
  proof (cases ws)
    case Nil
    have "split_acc [] (w @ []) = split_acc ([] @ w) []" using ns by (rule split_acc_nospace)
    with Nil ne show ?thesis by (simp add: split_ws_def)
  next
    case (Cons v vs)
    have sp: "isspace (CHR '' '')" by (simp add: isspace_def)
    have "split_acc [] (w @ ('' '' @ join '' '' ws)) = split_acc ([] @ w) ('' '' @ join '' '' ws)"
      using ns by (rule split_acc_nospace)
    also have "\<dots> = w # split_acc [] (join '' '' ws)" using ne sp by simp
    also have "\<dots> = w # ws" using Cons.IH Cons.prems by (simp add: split_ws_def)
    finally show ?thesis using Cons by (simp add: split_ws_def)
  qed
qed

lemma join_chars: "set (join '' '' ws) \<subseteq> {CHR '' ''} \<union> (\<Union>w \<in> set ws. set w)"
proof (induction ws)
  case Nil then show ?case by simp
next
  case (Cons w ws) then show ?case by (cases ws) auto
qed

lemma join_ends: "\<forall>w \<in> set ws. word_ok w \<Longrightarrow> ws \<noteq> [] \<Longrightarrow>
  join '' '' ws \<noteq> [] \<and> \<not> isspace (hd (join '' '' ws)) \<and> \<not> isspace (last (join '' '' ws))"
proof (induction ws)
  case Nil then show ?case by simp
next
  case (Cons w ws) then show ?case by (cases ws) (auto simp: word_ok_def list_all_iff)
qed

lemma set_strip: "set (strip s) \<subseteq> set s"
  by (auto simp: strip_def dest!: set_dropWhileD)

lemma strip_id:
  assumes "s = [] \<or> (\<not> isspace (hd s) \<and> \<not> isspace (last s))"
  shows "strip s = s"
proof (cases "s = []")
  case True then show ?thesis by (simp add: strip_def)
next
  case False
  with assms have h: "\<not> isspace (hd s)" and l: "\<not> isspace (last s)" by auto
  have 1: "dropWhile isspace s = s" using h by (simp add: dropWhile_eq_self_iff)
  have "hd (rev s) = last s" using False by (simp add: hd_rev)
  then have 2: "dropWhile isspace (rev s) = rev s" using l by (simp add: dropWhile_eq_self_iff)
  show ?thesis by (simp add: strip_def 1 2)
qed

lemma apply_replacements_absent:
  "\<forall>(old, new) \<in> set rs. old \<noteq> [] \<and> \<not> contains old s \<Longrightarrow> apply_replacements rs s = s"
  by (induction rs) (auto simp: apply_replacements_def replace_absent)

lemma apply_replacements_chars:
  "set (apply_replacements rs s) \<subseteq> set s \<union> (\<Union>(old, new) \<in> set rs. set new)"
proof (induction rs arbitrary: s)
  case Nil then show ?case by (simp add: apply_replacements_def)
next
  case (Cons r rs)
  obtain old new where r: "r = (old, new)" by (cases r)
  have "apply_replacements (r # rs) s = apply_replacements rs (replace old new s)"
    by (simp add: apply_replacements_def r)
  moreover have "set (apply_replacements rs (replace old new s)) \<subseteq> set (replace old new s) \<union> (\<Union>(old, new) \<in> set rs. set new)"
    by (rule Cons.IH)
  moreover have "set (replace old new s) \<subseteq> set new \<union> set s" by (rule set_replace)
  ultimately show ?case using r by auto
qed

lemma normalize_street_words:
  "\<exists>ws. normalize_street st = join '' '' ws \<and> (\<forall>w \<in> set ws. word_ok w)"
  unfolding normalize_street_def split_ws_def
  using split_acc_words[of "[]"] by fastforce

lemma normalize_street_upper: "set (normalize_street st) \<inter> set ascii_lowercase = {}"
proof -
  let ?r = "apply_replacements replacements (strip (upper st))"
  have 1: "set (upper st) \<inter> set ascii_lowercase = {}"
    using upper_char_not_lower by (auto simp: upper_def)
  have "set (strip (upper st)) \<subseteq> set (upper st)" by (rule set_strip)
  with 1 have 2: "set (strip (upper st)) \<inter> set ascii_lowercase = {}" by auto
  have 3: "(\<Union>(old, new) \<in> set replacements. set new) \<inter> set ascii_lowercase = {}"
    by (simp add: replacements_def ascii_lowercase_def)
  have 4: "set ?r \<inter> set ascii_lowercase = {}"
    using apply_replacements_chars[of replacements "strip (upper st)"] 2 3 by blast
  have 5: "\<forall>w \<in> set (split_ws ?r). set w \<subseteq> set ?r"
    using split_acc_chars[of "[]" ?r] by (simp add: split_ws_def)
  have 6: "CHR '' '' \<notin> set ascii_lowercase" by (simp add: ascii_lowercase_def)
  show ?thesis unfolding normalize_street_def
    using join_chars[of "split_ws ?r"] 4 5 6 by blast
qed

lemma normalize_street_fixed:
  assumes "list_all (\<lambda>(old, new). \<not> contains old (normalize_street st)) replacements"
  shows "normalize_street (normalize_street st) = normalize_street st"
proof -
  let ?n = "normalize_street st"
  obtain ws where ws: "?n = join '' '' ws" "\<forall>w \<in> set ws. word_ok w"
    using normalize_street_words by blast
  have u: "upper ?n = ?n"
    unfolding upper_def using normalize_street_upper[of st] upper_char_id
    by (intro map_idI) auto
  have s: "strip ?n = ?n"
  proof (cases "ws = []")
    case True then show ?thesis using ws by (simp add: strip_def)
  next
    case False then show ?thesis using join_ends[OF ws(2)] ws(1) by (intro strip_id) simp
  qed
  have ne: "\<forall>(old, new) \<in> set replacements. old \<noteq> []" by (simp add: replacements_def)
  have r: "apply_replacements replacements ?n = ?n"
    using assms ne by (intro apply_replacements_absent) (auto simp: list_all_iff)
  have j: "join '' '' (split_ws ?n) = ?n"
    using split_join[OF ws(2)] ws(1) by simp
  show ?thesis
    by (subst (1) normalize_street_def) (simp add: u s r j)
qed

section \<open>The cache key\<close>

text \<open>
  Claim C3, as stated: the cache key is the normalised street of the similarity comparison
  (upper-cased, trimmed, long forms abbreviated, white space collapsed), the separator and
  the upper-cased borough. It fails for \<^verbatim>\<open>100 Gold Street\<close> without a borough: the key
  keeps \<^verbatim>\<open>STREET\<close>, the normalised street has \<^verbatim>\<open>ST\<close>.
\<close>

theorem cache_key_not_normalized_street:
  "cache_normalize_address
     \<lparr>street = ''100 Gold Street'', city = ''New York'', state = ''NY'',
      zip_code = None, borough = None\<rparr>
   = ''100 GOLD STREET, BROOKLYN''
   \<and> matcher_normalize_address
     \<lparr>street = ''100 Gold Street'', city = ''New York'', state = ''NY'',
      zip_code = None, borough = None\<rparr> @ '', '' @ upper ''BROOKLYN''
   = ''100 GOLD ST, BROOKLYN''"
  by (simp add: normalize_eval str_eval)

text \<open>
  Claim C3, amended: the cache key is the street upper-cased and trimmed only, then
  \<^verbatim>\<open>", "\<close>, then the borough upper-cased and trimmed, with \<^verbatim>\<open>BROOKLYN\<close> for an absent or
  empty borough. It is built on the normalised street of the similarity comparison exactly
  for the addresses whose normalised street is the upper-cased, trimmed street itself.
\<close>

theorem cache_key_upper_trimmed:
  "cache_normalize_address a =
     strip (upper (street a)) @ '', '' @
     strip (upper (case borough a of None \<Rightarrow> ''BROOKLYN''
                                   | Some b \<Rightarrow> if b = [] then ''BROOKLYN'' else b))
   \<and> (cache_normalize_address a =
        matcher_normalize_address a @ '', '' @ strip (upper (str_or (borough a) ''BROOKLYN''))
      \<longleftrightarrow> matcher_normalize_address a = strip (upper (street a)))"
  by (auto simp: cache_normalize_address_def str_or_def Let_def)

section \<open>Re-normalising a normalised street\<close>

text \<open>
  Claim C8, as stated: normalising an address whose street is already normalised changes
  nothing. It fails for the street \<^verbatim>\<open>1 STREETREET\<close>: replacing \<^verbatim>\<open>STREET\<close> by \<^verbatim>\<open>ST\<close>
  leaves \<^verbatim>\<open>1 STREET\<close>, which the second normalisation turns into \<^verbatim>\<open>1 ST\<close>.
\<close>

theorem normalize_not_idempotent:
  "matcher_normalize_address
     \<lparr>street = ''1 STREETREET'', city = ''New York'', state = ''NY'',
      zip_code = None, borough = None\<rparr> = ''1 STREET''
   \<and> matcher_normalize_address
     \<lparr>street = ''1 STREET'', city = ''New York'', state = ''NY'',
      zip_code = None, borough = None\<rparr> = ''1 ST''"
  by (simp add: normalize_eval str_eval)

text \<open>
  Claim C8, amended: normalisation is idempotent on every address whose normalised street
  contains none of the long forms of the replacement table.
\<close>

theorem normalize_idempotent_without_long_forms:
  assumes "list_all (\<lambda>(old, new). \<not> contains old (matcher_normalize_address a)) replacements"
  shows "matcher_normalize_address (a\<lparr>street := matcher_normalize_address a\<rparr>)
         = matcher_normalize_address a"
  using assms normalize_street_fixed [of "street a"]
  by (simp add: matcher_normalize_address_def)

theorem normalize_idempotent_without_long_forms_witness:
  "list_all (\<lambda>(old, new). \<not> contains old (matcher_normalize_address (addr_of ''12 east  5th Avenue '' None)))
     replacements
   \<and> matcher_normalize_address (addr_of ''12 east  5th Avenue '' None) = ''12 E 5TH AVE''
   \<and> matcher_normalize_address
        ((addr_of ''12 east  5th Avenue '' None)
           \<lparr>street := matcher_normalize_address (addr_of ''12 east  5th Avenue '' None)\<rparr>)
      = ''12 E 5TH AVE''"
proof -
  have v: "matcher_normalize_address (addr_of ''12 east  5th Avenue '' None) = ''12 E 5TH AVE''"
    by (simp add: normalize_eval str_eval)
  have h: "list_all (\<lambda>(old, new). \<not> contains old (matcher_normalize_address (addr_of ''12 east  5th Avenue '' None)))
     replacements"
    unfolding v by (simp add: replacements_def)
  from normalize_idempotent_without_long_forms [OF h] h v show ?thesis by simp
qed

section \<open>Matching one listing\<close>

lemmas sample_eval =
  sample_collaborators_def sample_builtins_def sample_lookup_def gold_building_def
  listing_def gold_listing_def sample_cache_def empty_state_def prefix_ratio_def addr_of_def

lemmas cache_eval =
  get_cached_hpd_data_def reconstruct_building_def cached_b_units_def
  cached_total_units_def row_get_def placeholder_units_def cache_normalize_address_def

lemma str_of_nat_Suc_0: "str_of_nat (Suc 0) = ''1''"
  by (simp add: str_of_nat.simps digit_char_def digits_def)

lemma str_of_nat_Suc_Suc_0: "str_of_nat (Suc (Suc 0)) = ''2''"
  by (simp add: str_of_nat.simps digit_char_def digits_def)

lemma upt_0_2: "[0..<2] = [0, Suc 0]"
  by (simp add: upt_rec)

text \<open>A building rebuilt from the cache carries the address that was asked for.\<close>

lemma cached_building_address:
  "get_cached_hpd_data bi cache a = Some b \<Longrightarrow> bldg_address b = a"
  by (auto simp: get_cached_hpd_data_def reconstruct_building_def Let_def
           split: option.splits sum.splits)

lemma self_similarity:
  assumes "ratio (matcher_normalize_address a) (matcher_normalize_address a) = 100"
  shows "calculate_address_similarity ratio a a = 100"
  using assms
  by (auto simp: calculate_address_similarity_def both_present_def Let_def split: option.splits)

lemma cache_hit_try:
  assumes "get_cached_hpd_data (py co) cache (address z) = Some b"
  shows "match_property co cache st z = (verify_match (fuzz_ratio co) z b (new_enriched z), st)"
  using assms by (simp add: match_property_def match_property_try_def Let_def)

lemma cache_hit_result:
  assumes hit: "get_cached_hpd_data (py co) cache (address z) = Some b"
    and r: "fuzz_ratio co (matcher_normalize_address (address z))
                          (matcher_normalize_address (address z)) = 100"
  shows "match_property co cache st z =
           ((new_enriched z)\<lparr>hpd_data := Some b, hpd_match_found := True,
              has_b_units := bldg_has_b_units b, b_unit_count := int (length (b_units b)),
              total_units := bldg_total_units b, match_confidence := Some ''High''\<rparr>, st)"
proof -
  have a: "bldg_address b = address z" using hit by (rule cached_building_address)
  have s: "calculate_address_similarity (fuzz_ratio co) (address z) (bldg_address b) = 100"
    unfolding a using r by (rule self_similarity [of "fuzz_ratio co" "address z"])
  show ?thesis
    unfolding cache_hit_try [OF hit] by (simp add: verify_match_def s match_threshold_def)
qed

lemma sample_cache_hit:
  "get_cached_hpd_data (py sample_collaborators) sample_cache (address gold_listing) =
     Some \<lparr>building_id = Some [], bin = Some [], bbl = Some [],
           bldg_address = addr_of ''100 Gold Street'' (Some ''Manhattan''),
           bldg_total_units = 3, residential_units = 3,
           b_units = [\<lparr>unit_number = Some ''B1'', unit_type = Some ''Basement'', is_b_unit = True\<rparr>,
                      \<lparr>unit_number = Some ''B2'', unit_type = Some ''Basement'', is_b_unit = True\<rparr>],
           bldg_has_b_units = True, building_class = None, registration_id = None,
           landlord_name = None, landlord_address = None\<rparr>"
  by (simp add: sample_eval cache_eval str_eval upt_0_2 str_of_nat_Suc_0 str_of_nat_Suc_Suc_0)

lemma sample_ratio_self:
  "fuzz_ratio sample_collaborators (matcher_normalize_address (address gold_listing))
                                   (matcher_normalize_address (address gold_listing)) = 100"
  by (simp add: sample_collaborators_def prefix_ratio_def)

text \<open>
  Claim C1: when the cache lookup for a listing's address returns a building, matching
  that listing makes no call to the lookup collaborator (the recorded calls and the whole
  matcher state are unchanged), attaches the cached building and sets the match flag. The
  similarity gate is passed because the rebuilt building carries the listing's own address
  and \<^verbatim>\<open>fuzz.ratio\<close> gives 100 on equal strings, which is the hypothesis on the collaborator.
\<close>

theorem cache_hit_skips_lookup:
  assumes "get_cached_hpd_data (py co) cache (address z) = Some b"
    and "fuzz_ratio co (matcher_normalize_address (address z))
                       (matcher_normalize_address (address z)) = 100"
  shows "scraper_calls (snd (match_property co cache st z)) = scraper_calls st
       \<and> snd (match_property co cache st z) = st
       \<and> hpd_data (fst (match_property co cache st z)) = Some b
       \<and> hpd_match_found (fst (match_property co cache st z))"
  using cache_hit_result [OF assms] by simp

theorem cache_hit_skips_lookup_witness:
  "get_cached_hpd_data (py sample_collaborators) sample_cache (address gold_listing) \<noteq> None
   \<and> scraper_calls (snd (match_property sample_collaborators sample_cache empty_state gold_listing)) = []
   \<and> hpd_data (fst (match_property sample_collaborators sample_cache empty_state gold_listing))
       = get_cached_hpd_data (py sample_collaborators) sample_cache (address gold_listing)
   \<and> hpd_match_found (fst (match_property sample_collaborators sample_cache empty_state gold_listing))"
  using cache_hit_skips_lookup [OF sample_cache_hit sample_ratio_self, of empty_state]
  by (simp add: sample_cache_hit) (simp add: empty_state_def)

text \<open>
  Claim C10: a listing resolved from a cache hit always gets the confidence tier
  \<^verbatim>\<open>High\<close>, whatever the cached row says: the rebuilt building carries the query
  address, so the recomputed similarity is exactly 100 (again for a \<^verbatim>\<open>fuzz.ratio\<close> that
  gives 100 on equal strings).
\<close>

theorem cache_hit_confidence_high:
  assumes "get_cached_hpd_data (py co) cache (address z) = Some b"
    and "fuzz_ratio co (matcher_normalize_address (address z))
                       (matcher_normalize_address (address z)) = 100"
  shows "bldg_address b = address z
       \<and> calculate_address_similarity (fuzz_ratio co) (address z) (bldg_address b) = 100
       \<and> match_confidence (fst (match_property co cache st z)) = Some ''High''"
  using cache_hit_result [OF assms] cached_building_address [OF assms(1)]
        self_similarity [of "fuzz_ratio co" "address z", OF assms(2)] by simp

theorem cache_hit_confidence_high_witness:
  "map_of (the (map_of sample_cache ''100 GOLD STREET, MANHATTAN'')) ''Match Confidence''
     = Some (PyStr ''Low'')
   \<and> get_cached_hpd_data (py sample_collaborators) sample_cache (address gold_listing) \<noteq> None
   \<and> match_confidence (fst (match_property sample_collaborators sample_cache empty_state gold_listing))
       = Some ''High''"
  using cache_hit_confidence_high [OF sample_cache_hit sample_ratio_self, of empty_state]
  by (simp add: sample_cache_hit) (simp add: sample_cache_def)

lemma gold_similarity:
  "calculate_address_similarity prefix_ratio (addr_of ''100 Gold Street'' (Some ''Manhattan''))
     (bldg_address gold_building) = 94"
  by (simp add: calculate_address_similarity_def both_present_def sample_eval normalize_eval str_eval)

lemma far_similarity:
  "calculate_address_similarity prefix_ratio (addr_of ''1 Gold Street'' None)
     (bldg_address gold_building) = 11"
  by (simp add: calculate_address_similarity_def both_present_def sample_eval normalize_eval str_eval)

text \<open>
  Claim C4: for a listing that misses the cache and for which the lookup collaborator
  returns a candidate building, with \<open>s\<close> the similarity of the listing address and the
  candidate address: below 80 the listing stays unmatched (the record is the initial one:
  no building, no tier); from 80 on the match flag is set and the building attached, and
  the tier is \<^verbatim>\<open>High\<close> for \<open>s \<ge> 95\<close>, \<^verbatim>\<open>Medium\<close> for \<open>85 \<le> s < 95\<close> and \<^verbatim>\<open>Low\<close> otherwise.
\<close>

theorem lookup_candidate_gate:
  assumes "get_cached_hpd_data (py co) cache (address z) = None"
    and "search_by_address co (scraper_calls st) (address z) = Inr (Some b)"
  shows "let s = calculate_address_similarity (fuzz_ratio co) (address z) (bldg_address b);
             e = fst (match_property co cache st z)
         in (s < 80 \<longrightarrow> e = new_enriched z \<and> \<not> hpd_match_found e \<and> hpd_data e = None
                          \<and> match_confidence e = None)
          \<and> (80 \<le> s \<longrightarrow> hpd_match_found e \<and> hpd_data e = Some b)
          \<and> (95 \<le> s \<longrightarrow> match_confidence e = Some ''High'')
          \<and> (85 \<le> s \<and> s < 95 \<longrightarrow> match_confidence e = Some ''Medium'')
          \<and> (80 \<le> s \<and> s < 85 \<longrightarrow> match_confidence e = Some ''Low'')"
  using assms
  by (simp add: match_property_def match_property_try_def verify_match_def match_threshold_def
                Let_def new_enriched_def)

theorem lookup_candidate_gate_witness:
  "get_cached_hpd_data (py sample_collaborators) [] (address gold_listing) = None
   \<and> search_by_address sample_collaborators (scraper_calls empty_state) (address gold_listing)
       = Inr (Some gold_building)
   \<and> calculate_address_similarity (fuzz_ratio sample_collaborators) (address gold_listing)
       (bldg_address gold_building) = 94
   \<and> hpd_match_found (fst (match_property sample_collaborators [] empty_state gold_listing))
   \<and> match_confidence (fst (match_property sample_collaborators [] empty_state gold_listing))
       = Some ''Medium''
   \<and> calculate_address_similarity (fuzz_ratio sample_collaborators)
       (address (listing ''1 Gold Street'' None None)) (bldg_address gold_building) = 11
   \<and> fst (match_property sample_collaborators [] empty_state (listing ''1 Gold Street'' None None))
       = new_enriched (listing ''1 Gold Street'' None None)"
proof -
  have m1: "get_cached_hpd_data (py sample_collaborators) [] (address gold_listing) = None"
    by (simp add: get_cached_hpd_data_def)
  have l1: "search_by_address sample_collaborators (scraper_calls empty_state) (address gold_listing)
              = Inr (Some gold_building)"
    by (simp add: sample_collaborators_def sample_lookup_def gold_listing_def listing_def addr_of_def)
  have s1: "calculate_address_similarity (fuzz_ratio sample_collaborators) (address gold_listing)
              (bldg_address gold_building) = 94"
    using gold_similarity by (simp add: sample_collaborators_def gold_listing_def listing_def)
  have m2: "get_cached_hpd_data (py sample_collaborators) []
              (address (listing ''1 Gold Street'' None None)) = None"
    by (simp add: get_cached_hpd_data_def)
  have l2: "search_by_address sample_collaborators (scraper_calls empty_state)
              (address (listing ''1 Gold Street'' None None)) = Inr (Some gold_building)"
    by (simp add: sample_collaborators_def sample_lookup_def listing_def addr_of_def)
  have s2: "calculate_address_similarity (fuzz_ratio sample_collaborators)
              (address (listing ''1 Gold Street'' None None)) (bldg_address gold_building) = 11"
    using far_similarity by (simp add: sample_collaborators_def listing_def)
  from lookup_candidate_gate [OF m1 l1] lookup_candidate_gate [OF m2 l2] m1 l1 s1 s2
  show ?thesis by (simp add: Let_def)
qed


section \<open>Writing the cache\<close>

lemma update_absent: "map_of al k = None \<Longrightarrow> AList.update k v al = al @ [(k, v)]"
  by (induction al) (auto split: if_splits)

lemma save_loop_append:
  "\<exists>ws. save_loop clock props (cache, nd) = (cache @ ws, nd @ map snd ws)
        \<and> distinct (map fst ws)
        \<and> list_all (\<lambda>e. map_of cache (fst e) = None
                        \<and> list_ex (\<lambda>p. saveable p \<and> key_of p = fst e) props) ws"
proof (induction props arbitrary: cache nd)
  case Nil
  show ?case by (rule exI [of _ "[]"]) simp
next
  case (Cons p props)
  let ?key = "cache_normalize_address (address (zillow_data p))"
  show ?case
  proof (cases "saveable p \<and> map_of cache ?key = None")
    case False
    from Cons.IH [of cache nd] obtain ws where
      ws: "save_loop clock props (cache, nd) = (cache @ ws, nd @ map snd ws)"
          "distinct (map fst ws)"
          "list_all (\<lambda>e. map_of cache (fst e) = None
                        \<and> list_ex (\<lambda>p. saveable p \<and> key_of p = fst e) props) ws"
      by blast
    have "save_loop clock (p # props) (cache, nd) = save_loop clock props (cache, nd)"
      using False by (auto simp: saveable_def Let_def split: option.splits)
    with ws show ?thesis
      by (intro exI [of _ ws]) (auto simp: list_all_iff)
  next
    case True
    then obtain b where b: "hpd_data p = Some b" and m: "hpd_match_found p"
      and absent: "map_of cache ?key = None"
      by (auto simp: saveable_def)
    let ?r = "cache_row (clock (length nd)) p b"
    from Cons.IH [of "cache @ [(?key, ?r)]" "nd @ [?r]"] obtain ws where
      ws: "save_loop clock props (cache @ [(?key, ?r)], nd @ [?r])
             = ((cache @ [(?key, ?r)]) @ ws, (nd @ [?r]) @ map snd ws)"
          "distinct (map fst ws)"
          "list_all (\<lambda>e. map_of (cache @ [(?key, ?r)]) (fst e) = None
                        \<and> list_ex (\<lambda>p. saveable p \<and> key_of p = fst e) props) ws"
      by blast
    have step: "save_loop clock (p # props) (cache, nd)
                  = save_loop clock props (cache @ [(?key, ?r)], nd @ [?r])"
      using b m absent by (simp add: Let_def update_absent)
    have fresh: "?key \<notin> fst ` set ws"
    proof
      assume "?key \<in> fst ` set ws"
      then obtain e where "e \<in> set ws" "fst e = ?key" by auto
      with ws(3) have "map_of (cache @ [(?key, ?r)]) ?key = None" by (auto simp: list_all_iff)
      then show False by (simp add: map_add_def split: option.splits)
    qed
    have old: "\<forall>e \<in> set ws. map_of cache (fst e) = None"
    proof
      fix e assume "e \<in> set ws"
      with ws(3) have "map_of (cache @ [(?key, ?r)]) (fst e) = None" by (auto simp: list_all_iff)
      then show "map_of cache (fst e) = None" by (auto simp: map_add_def split: option.splits if_splits)
    qed
    show ?thesis
      apply (rule exI [of _ "(?key, ?r) # ws"])
      using step ws fresh old absent True
      by (auto simp: list_all_iff list_ex_iff key_of_def)
  qed
qed

lemma save_loop_covers:
  "save_loop clock props (cache, nd) = (cache', nd') \<Longrightarrow>
   p \<in> set props \<Longrightarrow> saveable p \<Longrightarrow> map_of cache' (key_of p) \<noteq> None"
proof (induction props arbitrary: cache nd)
  case Nil then show ?case by simp
next
  case (Cons q props)
  obtain c1 n1 where s1: "save_loop clock [q] (cache, nd) = (c1, n1)" by (cases "save_loop clock [q] (cache, nd)")
  have comp: "save_loop clock (q # props) (cache, nd) = save_loop clock props (c1, n1)"
    using s1 by (auto simp: Let_def split: option.splits if_splits)
  show ?case
  proof (cases "p = q")
    case False
    with Cons.prems have "p \<in> set props" by simp
    with Cons.IH [of c1 n1] Cons.prems comp show ?thesis by simp
  next
    case True
    have k1: "map_of c1 (key_of p) \<noteq> None"
      using s1 True Cons.prems(3)
      by (auto simp: saveable_def key_of_def Let_def update_absent map_add_def
               split: option.splits if_splits)
    from save_loop_append [of clock props c1 n1] obtain ws where
      "save_loop clock props (c1, n1) = (c1 @ ws, n1 @ map snd ws)" by blast
    with comp Cons.prems(1) have "cache' = c1 @ ws" by simp
    with k1 show ?thesis by (auto simp: map_add_def split: option.splits)
  qed
qed

lemma save_loop_idle:
  "\<forall>p \<in> set props. saveable p \<longrightarrow> map_of cache (key_of p) \<noteq> None \<Longrightarrow>
   save_loop clock props (cache, nd) = (cache, nd)"
  by (induction props) (auto simp: saveable_def key_of_def Let_def split: option.splits)

lemma count_distinct_key:
  "distinct (map fst al) \<Longrightarrow>
   length (filter (\<lambda>e. fst e = k) al) = (if map_of al k = None then 0 else 1)"
  by (induction al) (auto simp: map_of_eq_None_iff image_iff)

text \<open>
  Within one process \<^verbatim>\<open>save_to_cache\<close> only appends. For a dictionary (an association
  list with distinct keys), the dictionary after the call is the old one followed by new
  entries \<open>ws\<close>; every new key was absent before and comes from a property with the match
  flag set and a building present; keys stay distinct, so no key has more than one entry;
  the table handed to the writer holds exactly the rows of the dictionary; a second call
  with the same properties changes nothing, and each saveable property's key has exactly
  one entry afterwards.
\<close>

lemma save_to_cache_append_only:
  assumes "distinct (map fst cache)"
  shows "\<exists>ws written.
           save_to_cache clock cache props = (cache @ ws, written)
         \<and> list_all (\<lambda>e. map_of cache (fst e) = None
                   \<and> list_ex (\<lambda>p. hpd_match_found p \<and> hpd_data p \<noteq> None
                         \<and> cache_normalize_address (address (zillow_data p)) = fst e) props) ws
         \<and> distinct (map fst (cache @ ws))
         \<and> (\<forall>k. length (filter (\<lambda>e. fst e = k) (cache @ ws)) \<le> 1)
         \<and> (props \<noteq> [] \<longrightarrow> written = Some (map snd (cache @ ws)))
         \<and> save_to_cache clock' (cache @ ws) props = (cache @ ws, written)
         \<and> list_all (\<lambda>p. hpd_match_found p \<and> hpd_data p \<noteq> None \<longrightarrow>
               length (filter (\<lambda>e. fst e = cache_normalize_address (address (zillow_data p)))
                         (fst (save_to_cache clock' (cache @ ws) props))) = 1) props"
proof -
  from save_loop_append [of clock props cache "map snd cache"] obtain ws where
    run: "save_loop clock props (cache, map snd cache) = (cache @ ws, map snd cache @ map snd ws)"
    and d: "distinct (map fst ws)"
    and new: "list_all (\<lambda>e. map_of cache (fst e) = None
                        \<and> list_ex (\<lambda>p. saveable p \<and> key_of p = fst e) props) ws"
    by blast
  let ?c = "cache @ ws"
  let ?w = "if props = [] then None else Some (map snd ?c)"
  have first: "save_to_cache clock cache props = (?c, ?w)"
    using run by (cases props) (auto simp: save_to_cache_def)
  have disj: "fst ` set cache \<inter> fst ` set ws = {}"
  proof -
    have "\<forall>e \<in> set ws. fst e \<notin> fst ` set cache"
      using new by (auto simp: list_all_iff map_of_eq_None_iff)
    then show ?thesis by force
  qed
  have dist: "distinct (map fst ?c)" using assms d disj by simp
  have cnt: "\<forall>k. length (filter (\<lambda>e. fst e = k) ?c) \<le> 1"
    using count_distinct_key [OF dist] by simp
  have cov: "\<forall>p \<in> set props. saveable p \<longrightarrow> map_of ?c (key_of p) \<noteq> None"
    using save_loop_covers [OF run] by blast
  have idle: "save_loop clock' props (?c, map snd ?c) = (?c, map snd ?c)"
    using cov by (rule save_loop_idle)
  have second: "save_to_cache clock' ?c props = (?c, ?w)"
    using idle by (cases props) (auto simp: save_to_cache_def)
  have one: "list_all (\<lambda>p. hpd_match_found p \<and> hpd_data p \<noteq> None \<longrightarrow>
               length (filter (\<lambda>e. fst e = cache_normalize_address (address (zillow_data p)))
                         (fst (save_to_cache clock' ?c props))) = 1) props"
    unfolding second list_all_iff
    using cov count_distinct_key [OF dist] by (auto simp: saveable_def key_of_def)
  have new': "list_all (\<lambda>e. map_of cache (fst e) = None
                   \<and> list_ex (\<lambda>p. hpd_match_found p \<and> hpd_data p \<noteq> None
                         \<and> cache_normalize_address (address (zillow_data p)) = fst e) props) ws"
    using new by (simp add: saveable_def key_of_def)
  show ?thesis
    apply (rule exI [of _ ws])
    apply (rule exI [of _ ?w])
    using first new' dist cnt second one by simp
qed

lemma save_to_cache_append_only_sample:
  "distinct (map fst sample_cache)
   \<and> map fst (fst (save_to_cache sample_clock sample_cache sample_props))
       = [''100 GOLD STREET, MANHATTAN'', ''1 MAIN ST, BROOKLYN'']
   \<and> fst (save_to_cache sample_clock
            (fst (save_to_cache sample_clock sample_cache sample_props)) sample_props)
       = fst (save_to_cache sample_clock sample_cache sample_props)"
proof -
  have h: "distinct (map fst sample_cache)" by (simp add: sample_cache_def)
  have k: "map fst (fst (save_to_cache sample_clock sample_cache sample_props))
             = [''100 GOLD STREET, MANHATTAN'', ''1 MAIN ST, BROOKLYN'']"
    by (simp add: save_to_cache_def sample_props_def matched_with_def new_enriched_def
                  sample_eval cache_normalize_address_def str_eval Let_def)
  from save_to_cache_append_only [OF h, of sample_clock sample_props sample_clock]
  obtain ws written where
    "save_to_cache sample_clock sample_cache sample_props = (sample_cache @ ws, written)"
    "save_to_cache sample_clock (sample_cache @ ws) sample_props = (sample_cache @ ws, written)"
    by blast
  then have "fst (save_to_cache sample_clock
                   (fst (save_to_cache sample_clock sample_cache sample_props)) sample_props)
               = fst (save_to_cache sample_clock sample_cache sample_props)"
    by simp
  with h k show ?thesis by simp
qed

lemma cache_row_address_key:
  "row_address_key (cache_row stamp prop building)
     = Some (cache_normalize_address (address (zillow_data prop)))"
  by (simp add: row_address_key_def cache_row_def cache_normalize_address_def addr_of_def
        str_or_def Let_def upper_def upper_char_def ascii_lowercase_def ascii_uppercase_def
      split: option.splits)

lemmas batch_eval = match_properties_batch_def match_property_def match_property_try_def
  verify_match_def calculate_address_similarity_def both_present_def match_threshold_def
  address_str_def new_enriched_def save_to_cache_def cache_row_def opt_cell_def b_unit_label_def
  load_cache_def loaded_key_def str_cell_def echo_collaborators_def echo_lookup_def
  blank_street_listing_def sample_clock_def digit_char_def digits_def

text \<open>
  Claim C2 says that there is at most one cache entry per normalised key. The key under
  which \<^verbatim>\<open>save_to_cache\<close> files a row is the normalised key of the address in the row
  (street and borough upper-cased and trimmed), but \<^verbatim>\<open>_load_cache\<close> files the same row
  under the upper-cased street and borough without trimming. For the listing
  \<^verbatim>\<open>" 1 Main St"\<close>, the first run writes one row. The second run loads it under
  \<^verbatim>\<open>" 1 MAIN ST, BROOKLYN"\<close>, misses it under \<^verbatim>\<open>"1 MAIN ST, BROOKLYN"\<close>, calls the lookup
  collaborator again and writes a table with two rows for the same normalised key.
\<close>

theorem reload_duplicates_entry:
  "map_sum id (\<lambda>r. (map fst (final_cache r), map_option (map row_address_key) (written_table r)))
     first_run
   = Inr ([''1 MAIN ST, BROOKLYN''], Some [Some ''1 MAIN ST, BROOKLYN''])
   \<and> map_sum id (\<lambda>r. (scraper_calls (final_state r), map fst (final_cache r),
                        map_option (map row_address_key) (written_table r)))
     second_run
   = Inr ([address blank_street_listing],
          ['' 1 MAIN ST, BROOKLYN'', ''1 MAIN ST, BROOKLYN''],
          Some [Some ''1 MAIN ST, BROOKLYN'', Some ''1 MAIN ST, BROOKLYN''])"
  unfolding second_run_def first_run_def
  by (simp add: batch_eval batch_loop.simps sample_eval cache_eval normalize_eval str_eval
        row_address_key_def Let_def)

section \<open>Scores, notes and sort keys\<close>

lemma exact_float_of_int:
  "exact_ops fo \<Longrightarrow> \<bar>k\<bar> \<le> 2 ^ 53 \<Longrightarrow> float_of_int fo k = Inr (of_int k)"
  by (simp add: exact_ops_def)

lemma exact_float_of_decimal:
  "exact_ops fo \<Longrightarrow> \<bar>k\<bar> \<le> 2 ^ 53 \<Longrightarrow> float_of_decimal fo (of_int k) = of_int k"
  by (simp add: exact_ops_def)

lemma exact_float_add:
  "exact_ops fo \<Longrightarrow> \<bar>x\<bar> \<le> 2 ^ 53 \<Longrightarrow> \<bar>y\<bar> \<le> 2 ^ 53 \<Longrightarrow> \<bar>x + y\<bar> \<le> 2 ^ 53
   \<Longrightarrow> float_add fo (of_int x) (of_int y) = of_int (x + y)"
  by (simp add: exact_ops_def)

lemma add_int_exact:
  assumes "exact_ops fo" "\<bar>x\<bar> \<le> 2 ^ 52" "\<bar>k\<bar> \<le> 2 ^ 52"
  shows "add_int fo (of_int x) k = Inr (of_int (x + k))"
proof -
  have 1: "float_of_int fo k = Inr (of_int k)"
    using assms(1,3) by (intro exact_float_of_int) simp_all
  have 2: "float_add fo (of_int x) (of_int k) = of_int (x + k)"
    using assms by (intro exact_float_add) simp_all
  show ?thesis by (simp add: add_int_def 1 2)
qed

lemma add_points_exact:
  assumes "exact_ops fo" "\<bar>x\<bar> \<le> 2 ^ 52" "\<bar>k\<bar> \<le> 2 ^ 52"
  shows "add_points fo (of_int x) k = Inr (of_int (x + k))"
  using add_int_exact [OF assms] by (simp add: add_points_def)

lemma div_int_exact:
  assumes "exact_ops fo" "\<bar>k\<bar> \<le> 2 ^ 52"
  shows "div_int fo x k = Inr (float_div fo x (of_int k))"
proof -
  have "float_of_int fo k = Inr (of_int k)"
    using assms by (intro exact_float_of_int) simp_all
  then show ?thesis by (simp add: div_int_def)
qed

lemma points_range:
  "0 \<le> price_per_unit_points q" "price_per_unit_points q \<le> 15"
  "0 \<le> days_on_market_points d" "days_on_market_points d \<le> 10"
  by (simp_all add: price_per_unit_points_def days_on_market_points_def)

lemma score_exact:
  assumes ops: "exact_ops fo" and cnt: "exact_counts p"
  shows "calculate_investment_score fo p =
     Inr (of_int (min ((if has_b_units p then 30 else 0)
          + min (b_unit_count p * 10) 30
          + (if 0 < total_units p then min (total_units p * 5) 25 else 0)
          + (case price (zillow_data p) of
               None \<Rightarrow> 0
             | Some pr \<Rightarrow>
                 if pr \<noteq> 0 \<and> 0 < total_units p
                 then price_per_unit_points (float_div fo pr (of_int (total_units p)))
                 else 0)
          + (case days_on_market (zillow_data p) of
               None \<Rightarrow> 0
             | Some d \<Rightarrow> days_on_market_points d))
         100))"
    and "\<exists>k. calculate_investment_score fo p = Inr (of_int k) \<and> \<bar>k\<bar> \<le> 2 ^ 53"
proof -
  define A :: int where "A = (if has_b_units p then 30 else 0)"
  define B :: int where "B = min (b_unit_count p * 10) 30"
  define C :: int where "C = (if 0 < total_units p then min (total_units p * 5) 25 else 0)"
  define D :: int where "D = (case price (zillow_data p) of
               None \<Rightarrow> 0
             | Some pr \<Rightarrow>
                 if pr \<noteq> 0 \<and> 0 < total_units p
                 then price_per_unit_points (float_div fo pr (of_int (total_units p)))
                 else 0)"
  define E :: int where "E = (case days_on_market (zillow_data p) of
               None \<Rightarrow> 0 | Some d \<Rightarrow> days_on_market_points d)"
  have lo: "- (2 ^ 48) \<le> b_unit_count p" and hi: "total_units p \<le> 2 ^ 52"
    using cnt by (simp_all add: exact_counts_def)
  have rA: "0 \<le> A" "A \<le> 30" by (simp_all add: A_def)
  have rB: "- (10 * 2 ^ 48) \<le> B" "B \<le> 30" using lo by (simp_all add: B_def)
  have rC: "0 \<le> C" "C \<le> 25" by (simp_all add: C_def)
  have rD: "0 \<le> D" "D \<le> 15"
    using points_range(1,2) by (simp_all add: D_def split: option.splits)
  have rE: "0 \<le> E" "E \<le> 10"
    using points_range(3,4) by (simp_all add: E_def split: option.splits)
  have 0: "(if has_b_units p then add_int fo 0 30 else Inr 0) = Inr (of_int A)"
    using add_int_exact [OF ops, of 0 30] by (simp add: A_def)
  have 1: "score_b_units fo p = Inr (of_int (A + B))"
    unfolding score_b_units_def 0 B_def [symmetric]
    using add_int_exact [OF ops, of A B] rA rB by simp
  have 2: "score_total_units fo p (of_int (A + B)) = Inr (of_int (A + B + C))"
  proof (cases "0 < total_units p")
    case True
    then have "C = min (total_units p * 5) 25" by (simp add: C_def)
    then show ?thesis
      unfolding score_total_units_def
      using True add_int_exact [OF ops, of "A + B" C] rA rB rC by simp
  next
    case False
    then show ?thesis by (simp add: score_total_units_def C_def)
  qed
  have 3: "score_price_per_unit fo p (of_int (A + B + C)) = Inr (of_int (A + B + C + D))"
  proof (cases "price (zillow_data p)")
    case None
    then show ?thesis by (simp add: score_price_per_unit_def D_def)
  next
    case (Some pr)
    show ?thesis
    proof (cases "pr \<noteq> 0 \<and> 0 < total_units p")
      case False
      then show ?thesis using Some by (auto simp: score_price_per_unit_def D_def)
    next
      case True
      then have u: "\<bar>total_units p\<bar> \<le> 2 ^ 52" using hi by simp
      have d: "div_int fo pr (total_units p) = Inr (float_div fo pr (of_int (total_units p)))"
        using ops u by (rule div_int_exact)
      have D: "D = price_per_unit_points (float_div fo pr (of_int (total_units p)))"
        using True Some by (simp add: D_def)
      show ?thesis
        unfolding score_price_per_unit_def
        using Some True d add_points_exact [OF ops, of "A + B + C" D] rA rB rC rD
        by (simp add: D [symmetric])
    qed
  qed
  have 4: "score_days_on_market fo p (of_int (A + B + C + D)) = Inr (of_int (A + B + C + D + E))"
  proof (cases "days_on_market (zillow_data p)")
    case None
    then show ?thesis by (simp add: score_days_on_market_def E_def)
  next
    case (Some d)
    then have E: "E = days_on_market_points d" by (simp add: E_def)
    show ?thesis
      unfolding score_days_on_market_def
      using Some add_points_exact [OF ops, of "A + B + C + D" E] rA rB rC rD rE
      by (simp add: E [symmetric])
  qed
  have r: "calculate_investment_score fo p = Inr (of_int (min (A + B + C + D + E) 100))"
    unfolding calculate_investment_score_def 1 sum.case 2 3 4 by simp
  then show "calculate_investment_score fo p =
     Inr (of_int (min ((if has_b_units p then 30 else 0)
          + min (b_unit_count p * 10) 30
          + (if 0 < total_units p then min (total_units p * 5) 25 else 0)
          + (case price (zillow_data p) of
               None \<Rightarrow> 0
             | Some pr \<Rightarrow>
                 if pr \<noteq> 0 \<and> 0 < total_units p
                 then price_per_unit_points (float_div fo pr (of_int (total_units p)))
                 else 0)
          + (case days_on_market (zillow_data p) of
               None \<Rightarrow> 0
             | Some d \<Rightarrow> days_on_market_points d))
         100))"
    unfolding A_def B_def C_def D_def E_def .
  have "\<bar>min (A + B + C + D + E) 100\<bar> \<le> 2 ^ 53" using rA rB rC rD rE by simp
  with r show "\<exists>k. calculate_investment_score fo p = Inr (of_int k) \<and> \<bar>k\<bar> \<le> 2 ^ 53"
    by blast
qed

lemma digit_char_is_digit: "digit_char d \<in> set digits"
  unfolding digit_char_def by (rule nth_mem) (simp add: digits_def)

lemma digit_val_digit_char: "d < 10 \<Longrightarrow> digit_val (digit_char d) = d"
proof -
  assume "d < 10"
  then have "d \<in> {0,1,2,3,4,5,6,7,8,9}" by auto
  then show ?thesis
    by (auto simp: digit_val_def digit_char_def digits_def)
qed

lemma str_of_nat_digits: "set (str_of_nat n) \<subseteq> set digits"
proof (induction n rule: str_of_nat.induct)
  case (1 n)
  show ?case
  proof (cases "n < 10")
    case True
    then show ?thesis using digit_char_is_digit by (subst str_of_nat.simps) simp
  next
    case False
    with 1 show ?thesis using digit_char_is_digit by (subst str_of_nat.simps) simp
  qed
qed

lemma str_of_nat_nonempty: "str_of_nat n \<noteq> []"
  by (subst str_of_nat.simps) simp

lemma nat_of_digits_snoc: "nat_of_digits (ds @ [d]) = 10 * nat_of_digits ds + digit_val d"
  by (simp add: nat_of_digits_def)

lemma nat_of_digits_str_of_nat: "nat_of_digits (str_of_nat n) = n"
proof (induction n rule: str_of_nat.induct)
  case (1 n)
  show ?case
  proof (cases "n < 10")
    case True
    then show ?thesis
      by (subst str_of_nat.simps) (simp add: nat_of_digits_def digit_val_digit_char)
  next
    case False
    have "n mod 10 < 10" by simp
    then have "digit_val (digit_char (n mod 10)) = n mod 10" by (rule digit_val_digit_char)
    with False 1 show ?thesis
      by (subst str_of_nat.simps) (simp add: nat_of_digits_snoc)
  qed
qed

lemma round_half_even_of_int: "round_half_even (of_int k) = k"
  by (simp add: round_half_even_def)

lemma format_1f_of_int:
  "format_1f (of_int k) = (if k < 0 then ''-'' else []) @ str_of_nat (nat \<bar>k\<bar>) @ ''.0''"
proof -
  have "\<bar>(of_int k :: rat)\<bar> * 10 = of_int (\<bar>k\<bar> * 10)" by simp
  then have "round_half_even (\<bar>(of_int k :: rat)\<bar> * 10) = \<bar>k\<bar> * 10"
    using round_half_even_of_int by metis
  moreover have "nat (\<bar>k\<bar> * 10) div 10 = nat \<bar>k\<bar>" by (simp add: nat_mult_distrib)
  moreover have "nat (\<bar>k\<bar> * 10) mod 10 = 0" by (simp add: nat_mult_distrib)
  ultimately show ?thesis
    by (simp add: format_1f_def Let_def digit_char_def digits_def)
qed


lemma digit_facts:
  assumes "c \<in> set digits"
  shows "\<not> isspace c" "c \<noteq> CHR ''-''" "c \<noteq> CHR ''+''" "c \<noteq> CHR ''.''" "c \<noteq> CHR '':''"
        "c \<noteq> CHR ''/''" "is_digit c"
  using assms by (auto simp: digits_def isspace_def is_digit_def)

lemma py_float_body:
  assumes D: "set D \<subseteq> set digits" "D \<noteq> []"
  shows "takeWhile is_digit (D @ ''.0'') = D" "dropWhile is_digit (D @ ''.0'') = ''.0''"
proof -
  have all: "\<forall>x \<in> set D. is_digit x" using D(1) digit_facts(7) by blast
  have nd: "\<not> is_digit (CHR ''.'')" by (simp add: is_digit_def digits_def)
  show "takeWhile is_digit (D @ ''.0'') = D"
    using all nd by (simp add: takeWhile_append2)
  show "dropWhile is_digit (D @ ''.0'') = ''.0''"
    using all nd by (simp add: dropWhile_append2)
qed

lemma float_body_decimal:
  assumes ops: "exact_ops fo" and D: "set D \<subseteq> set digits" "D \<noteq> []"
    and small: "int (nat_of_digits D) \<le> 2 ^ 53"
  shows "float_body fo neg (D @ ''.0'') = Inr ((if neg then - 1 else 1) * of_nat (nat_of_digits D))"
proof -
  have z: "is_digit (CHR ''0'')" by (simp add: is_digit_def digits_def)
  have v0: "nat_of_digits ''0'' = 0" by (simp add: nat_of_digits_def digit_val_def digits_def)
  let ?n = "int (nat_of_digits D)"
  have p: "float_of_decimal fo (of_int ?n) = of_int ?n"
    using ops small by (intro exact_float_of_decimal) simp_all
  have m: "float_of_decimal fo (of_int (- ?n)) = of_int (- ?n)"
    using ops small by (intro exact_float_of_decimal) simp_all
  have "float_body fo neg (D @ ''.0'')
          = Inr (float_of_decimal fo ((if neg then - 1 else 1) * of_nat (nat_of_digits D)))"
    unfolding float_body_def py_float_body [OF D] using z v0 D(2) by (simp add: Let_def)
  then show ?thesis using p m by (cases neg) simp_all
qed

lemma py_float_pos:
  assumes ops: "exact_ops fo" and D: "set D \<subseteq> set digits" "D \<noteq> []"
    and small: "int (nat_of_digits D) \<le> 2 ^ 53"
  shows "py_float fo (D @ ''.0'') = Inr (of_nat (nat_of_digits D))"
proof -
  obtain d ds where dd: "D = d # ds" using D(2) by (cases D) auto
  have dig: "d \<in> set digits" using D(1) dd by simp
  have "\<not> isspace (hd (D @ ''.0''))" using dig dd digit_facts(1) by simp
  moreover have "\<not> isspace (last (D @ ''.0''))" by (simp add: isspace_def)
  ultimately have st: "strip (D @ ''.0'') = d # ds @ ''.0''" unfolding dd [symmetric]
    using dd by (subst strip_id) auto
  have hd: "d \<noteq> CHR ''-''" "d \<noteq> CHR ''+''" using dig digit_facts by auto
  have "py_float fo (D @ ''.0'') = float_body fo False (D @ ''.0'')"
    unfolding py_float_def st using hd by (simp add: dd)
  then show ?thesis using float_body_decimal [OF ops D small, of False] by simp
qed

lemma py_float_neg:
  assumes ops: "exact_ops fo" and D: "set D \<subseteq> set digits" "D \<noteq> []"
    and small: "int (nat_of_digits D) \<le> 2 ^ 53"
  shows "py_float fo (''-'' @ D @ ''.0'') = Inr (- of_nat (nat_of_digits D))"
proof -
  have "\<not> isspace (hd (''-'' @ D @ ''.0''))" by (simp add: isspace_def)
  moreover have "\<not> isspace (last (''-'' @ D @ ''.0''))" by (simp add: isspace_def)
  ultimately have st: "strip (''-'' @ D @ ''.0'') = CHR ''-'' # D @ ''.0''"
    by (subst strip_id) auto
  have "py_float fo (''-'' @ D @ ''.0'') = float_body fo True (D @ ''.0'')"
    unfolding py_float_def st by simp
  then show ?thesis using float_body_decimal [OF ops D small, of True] by simp
qed

lemma py_float_format_1f:
  assumes ops: "exact_ops fo" and small: "\<bar>k\<bar> \<le> 2 ^ 53"
  shows "py_float fo (format_1f (of_int k)) = Inr (of_int k)"
proof -
  let ?D = "str_of_nat (nat \<bar>k\<bar>)"
  have D: "set ?D \<subseteq> set digits" "?D \<noteq> []"
    by (rule str_of_nat_digits, rule str_of_nat_nonempty)
  have s: "int (nat_of_digits ?D) \<le> 2 ^ 53"
    using small by (simp add: nat_of_digits_str_of_nat)
  show ?thesis
  proof (cases "k < 0")
    case True
    then show ?thesis
      using py_float_neg [OF ops D s] by (simp add: format_1f_of_int nat_of_digits_str_of_nat)
  next
    case False
    then show ?thesis
      using py_float_pos [OF ops D s] by (simp add: format_1f_of_int nat_of_digits_str_of_nat)
  qed
qed

lemma format_1f_chars: "set (format_1f (of_int k)) \<subseteq> set digits \<union> {CHR ''-'', CHR ''.''}"
proof -
  have z: "CHR ''0'' \<in> set digits" by (simp add: digits_def)
  show ?thesis
    using str_of_nat_digits [of "nat \<bar>k\<bar>"] z by (auto simp: format_1f_of_int)
qed

lemma format_1f_no_sep:
  "CHR '':'' \<notin> set (format_1f (of_int k))" "CHR ''/'' \<notin> set (format_1f (of_int k))"
proof -
  have "CHR '':'' \<notin> set digits \<union> {CHR ''-'', CHR ''.''}" by (simp add: digits_def)
  then show "CHR '':'' \<notin> set (format_1f (of_int k))" using format_1f_chars [of k] by blast
  have "CHR ''/'' \<notin> set digits \<union> {CHR ''-'', CHR ''.''}" by (simp add: digits_def)
  then show "CHR ''/'' \<notin> set (format_1f (of_int k))" using format_1f_chars [of k] by blast
qed

lemma split_colon_none: "CHR '':'' \<notin> set s \<Longrightarrow> split_sep '': '' cur s = [cur @ s]"
  by (induction s arbitrary: cur) auto

lemma split_slash_first:
  "CHR ''/'' \<notin> set x \<Longrightarrow> split_sep ''/'' cur (x @ CHR ''/'' # rest) = (cur @ x) # split_sep ''/'' [] rest"
  by (induction x arbitrary: cur) auto

lemma note_key_of_note:
  assumes ops: "exact_ops fo" and small: "\<bar>k\<bar> \<le> 2 ^ 53"
  shows "note_key fo (p\<lparr>meets_criteria := True,
               prop_notes := Some (''Investment Score: '' @ format_1f (of_int k) @ ''/100'')\<rparr>)
     = Inr (of_int k)"
proof -
  let ?X = "format_1f (of_int k)"
  have nc: "CHR '':'' \<notin> set (?X @ ''/100'')"
    using format_1f_no_sep(1) [of k] by simp
  have ns: "CHR ''/'' \<notin> set ?X"
    by (rule format_1f_no_sep(2))
  have 2: "split_sep ''/'' [] (?X @ ''/100'') = ?X # split_sep ''/'' [] ''100''"
    using split_slash_first [OF ns, of "[]" "''100''"] by simp
  show ?thesis
    unfolding note_key_def
    by (simp add: split_colon_none [OF nc] 2 py_float_format_1f [OF ops small])
qed


lemma score_of_exact:
  assumes ops: "exact_ops fo" and cnt: "exact_counts p"
  shows "calculate_investment_score fo p = Inr (score_of fo p)"
    and "\<exists>k. score_of fo p = of_int k \<and> \<bar>k\<bar> \<le> 2 ^ 53"
proof -
  from score_exact(2) [OF ops cnt] obtain k where
    k: "calculate_investment_score fo p = Inr (of_int k)" "\<bar>k\<bar> \<le> 2 ^ 53" by blast
  then have v: "score_of fo p = of_int k" by (simp add: score_of_def)
  show "calculate_investment_score fo p = Inr (score_of fo p)" using k(1) v by simp
  show "\<exists>k. score_of fo p = of_int k \<and> \<bar>k\<bar> \<le> 2 ^ 53" using v k(2) by blast
qed

lemmas score_stage_defs =
  calculate_investment_score_def score_b_units_def score_total_units_def
  score_price_per_unit_def score_days_on_market_def

lemma stages_ignore_marks:
  "score_b_units fo (p\<lparr>meets_criteria := m, prop_notes := n\<rparr>) = score_b_units fo p"
  "score_total_units fo (p\<lparr>meets_criteria := m, prop_notes := n\<rparr>) s = score_total_units fo p s"
  "score_price_per_unit fo (p\<lparr>meets_criteria := m, prop_notes := n\<rparr>) s
     = score_price_per_unit fo p s"
  "score_days_on_market fo (p\<lparr>meets_criteria := m, prop_notes := n\<rparr>) s
     = score_days_on_market fo p s"
  by (simp_all add: score_b_units_def score_total_units_def score_price_per_unit_def
        score_days_on_market_def cong: if_cong option.case_cong sum.case_cong)

lemma score_ignores_marks:
  "calculate_investment_score fo (p\<lparr>meets_criteria := m, prop_notes := n\<rparr>)
     = calculate_investment_score fo p"
  unfolding calculate_investment_score_def stages_ignore_marks by (rule refl)

lemma score_of_with_note [simp]: "score_of fo (with_note fo p) = score_of fo p"
  by (simp add: score_of_def with_note_def score_ignores_marks)

lemma exact_counts_with_note [simp]: "exact_counts (with_note fo p) = exact_counts p"
  by (simp add: exact_counts_def with_note_def)

lemma note_key_with_note:
  assumes "exact_ops fo" "exact_counts p"
  shows "note_key fo (with_note fo p) = Inr (score_of fo p)"
proof -
  from score_of_exact(2) [OF assms] obtain k where
    k: "score_of fo p = of_int k" "\<bar>k\<bar> \<le> 2 ^ 53" by blast
  show ?thesis unfolding with_note_def k(1) using assms(1) k(2) by (rule note_key_of_note)
qed

text \<open>The loop returns exactly when the scoring of every passing record returns.\<close>

lemma filter_loop_returns:
  "\<forall>p \<in> set ps. passes_all crit p \<longrightarrow> (\<exists>s. calculate_investment_score fo p = Inr s) \<Longrightarrow>
   filter_loop fo crit ps = Inr (map (with_note fo) (filter (passes_all crit) ps))"
  by (induction ps) (auto simp: with_note_def score_of_def)

lemma filter_loop_raises:
  "\<exists>p \<in> set ps. passes_all crit p \<and> (\<exists>e. calculate_investment_score fo p = Inl e) \<Longrightarrow>
   \<exists>e. filter_loop fo crit ps = Inl e"
proof (induction ps)
  case Nil
  then show ?case by simp
next
  case (Cons q ps)
  show ?case
  proof (cases "passes_all crit q")
    case False
    with Cons show ?thesis by auto
  next
    case True
    show ?thesis
    proof (cases "calculate_investment_score fo q")
      case (Inl e)
      with True show ?thesis by simp
    next
      case (Inr s)
      with Cons.prems have "\<exists>p \<in> set ps. passes_all crit p \<and> (\<exists>e. calculate_investment_score fo p = Inl e)"
        by auto
      from Cons.IH [OF this] obtain e where "filter_loop fo crit ps = Inl e" by blast
      with True Inr show ?thesis by simp
    qed
  qed
qed

lemma filter_loop_Inr:
  assumes "filter_loop fo crit ps = Inr xs"
  shows "xs = map (with_note fo) (filter (passes_all crit) ps)"
proof -
  have "\<forall>p \<in> set ps. passes_all crit p \<longrightarrow> (\<exists>s. calculate_investment_score fo p = Inr s)"
  proof (rule ccontr)
    assume "\<not> ?thesis"
    then have "\<exists>p \<in> set ps. passes_all crit p \<and> (\<exists>e. calculate_investment_score fo p = Inl e)"
      by (metis sum.exhaust)
    from filter_loop_raises [OF this] assms show False by auto
  qed
  from filter_loop_returns [OF this] assms show ?thesis by simp
qed

lemma note_keys_map:
  "\<forall>p \<in> set xs. note_key fo p = Inr (f p) \<Longrightarrow> note_keys fo xs = Inr (map f xs)"
  by (induction xs) simp_all

lemma note_keys_length: "note_keys fo xs = Inr ks \<Longrightarrow> length ks = length xs"
  by (induction xs arbitrary: ks) (auto split: sum.splits)

lemma insort_key_map:
  "insort_key g (h x) (map h ys) = map h (insort_key (\<lambda>y. g (h y)) x ys)"
  by (induction ys) simp_all

lemma sort_key_map: "sort_key g (map h xs) = map h (sort_key (\<lambda>y. g (h y)) xs)"
  by (induction xs) (simp_all add: insort_key_map)

lemma sort_zip_keys:
  "map snd (sort_key (\<lambda>(k, p). - k) (zip (map f xs) xs)) = sort_key (\<lambda>p. - f p) xs"
proof -
  have z: "zip (map f xs) xs = map (\<lambda>x. (f x, x)) xs" by (induction xs) simp_all
  show ?thesis by (simp add: z sort_key_map comp_def)
qed

lemma filter_properties_sorted:
  assumes ops: "exact_ops fo"
    and cnt: "\<forall>p \<in> set ps. passes_all crit p \<longrightarrow> exact_counts p"
  shows "filter_properties fo crit ps =
     Inr (sort_key (\<lambda>p. - score_of fo p) (map (with_note fo) (filter (passes_all crit) ps)))"
proof -
  let ?xs = "map (with_note fo) (filter (passes_all crit) ps)"
  have "\<forall>p \<in> set ps. passes_all crit p \<longrightarrow> (\<exists>s. calculate_investment_score fo p = Inr s)"
    using score_of_exact(1) [OF ops] cnt by blast
  then have loop: "filter_loop fo crit ps = Inr ?xs" by (rule filter_loop_returns)
  have "\<forall>p \<in> set ?xs. note_key fo p = Inr (score_of fo p)"
    using note_key_with_note [OF ops] cnt by auto
  then have keys: "note_keys fo ?xs = Inr (map (score_of fo) ?xs)"
    by (rule note_keys_map)
  show ?thesis
    unfolding filter_properties_def loop sum.case keys
    by (simp only: sum.case sort_zip_keys)
qed

lemma filter_properties_set:
  assumes "filter_properties fo crit ps = Inr out"
  shows "set out = with_note fo ` {p \<in> set ps. passes_all crit p}"
proof -
  from assms obtain xs where xs: "filter_loop fo crit ps = Inr xs"
    by (auto simp: filter_properties_def split: sum.splits)
  from assms xs obtain ks where ks: "note_keys fo xs = Inr ks"
    and out: "out = map snd (sort_key (\<lambda>(k, p). - k) (zip ks xs))"
    by (auto simp: filter_properties_def split: sum.splits)
  have l: "length ks = length xs" using ks by (rule note_keys_length)
  have "set out = snd ` set (zip ks xs)" unfolding out by simp
  also have "\<dots> = set (map snd (zip ks xs))" by simp
  also have "\<dots> = set xs" using l by simp
  finally show ?thesis using filter_loop_Inr [OF xs] by auto
qed

lemma filter_properties_raises:
  assumes "\<exists>p \<in> set ps. passes_all crit p \<and> (\<exists>e. calculate_investment_score fo p = Inl e)"
  shows "\<exists>e. filter_properties fo crit ps = Inl e"
  using filter_loop_raises [OF assms] by (auto simp: filter_properties_def)

section \<open>The filter output\<close>

lemmas filter_eval = passes_all_def meets_price_criteria_def meets_bedroom_criteria_def
  meets_bathroom_criteria_def meets_unit_criteria_def has_required_b_units_def
  meets_borough_criteria_def meets_property_type_criteria_def list_or_empty_def
  default_criteria_def matched_with_def new_enriched_def

lemmas score_eval = score_stage_defs add_int_def add_points_def div_int_def
  price_per_unit_points_def days_on_market_points_def unrounded_ops_def
  matched_with_def new_enriched_def

lemmas record_defs = record_a_def record_b_def record_c_def record_d_def

lemma unrounded_ops_exact: "exact_ops unrounded_ops"
proof -
  have "\<bar>k\<bar> \<le> 2 ^ 53 \<Longrightarrow> \<bar>k\<bar> < 2 ^ 1024" for k :: int
  proof -
    assume "\<bar>k\<bar> \<le> 2 ^ 53"
    moreover have "(2::int) ^ 53 < 2 ^ 1024" by (rule power_strict_increasing) simp_all
    ultimately show ?thesis by linarith
  qed
  then show ?thesis by (simp add: exact_ops_def unrounded_ops_def)
qed

lemma sample_passes:
  "passes_all default_criteria record_a" "\<not> passes_all default_criteria record_b"
  "passes_all default_criteria record_c" "passes_all default_criteria record_d"
  by (simp_all add: record_defs filter_eval sample_eval str_eval)

lemma sample_counts:
  "exact_counts record_a" "exact_counts record_b" "exact_counts record_c" "exact_counts record_d"
  by (simp_all add: record_defs exact_counts_def matched_with_def new_enriched_def gold_building_def)

lemma sample_scores:
  "calculate_investment_score unrounded_ops record_a = Inr 72"
  "calculate_investment_score unrounded_ops record_b = Inr 7"
  "calculate_investment_score unrounded_ops record_c = Inr 87"
  "calculate_investment_score unrounded_ops record_d = Inr 72"
  by (simp_all add: record_defs score_eval sample_eval)

lemma sample_score_of:
  "score_of unrounded_ops record_a = 72" "score_of unrounded_ops record_b = 7"
  "score_of unrounded_ops record_c = 87" "score_of unrounded_ops record_d = 72"
  by (simp_all add: score_of_def sample_scores)

text \<open>A passing record whose unit count no float can hold makes the scoring, and with it
  the filter, raise.\<close>

lemma huge_unit_count_raises:
  "passes_all default_criteria huge_units_record
   \<and> calculate_investment_score unrounded_ops huge_units_record = Inl OverflowError
   \<and> filter_properties unrounded_ops default_criteria [huge_units_record] = Inl OverflowError"
proof -
  have p: "passes_all default_criteria huge_units_record"
    by (simp add: huge_units_record_def filter_eval sample_eval str_eval)
  have s: "calculate_investment_score unrounded_ops huge_units_record = Inl OverflowError"
    by (simp add: huge_units_record_def score_eval sample_eval)
  show ?thesis using p s by (simp add: filter_properties_def)
qed


lemma sample_filter_output:
  "filter_properties unrounded_ops default_criteria sample_records
     = Inr [with_note unrounded_ops record_c, with_note unrounded_ops record_a,
            with_note unrounded_ops record_d]"
proof -
  have c: "\<forall>p \<in> set sample_records. passes_all default_criteria p \<longrightarrow> exact_counts p"
    by (simp add: sample_records_def sample_counts)
  show ?thesis
    unfolding filter_properties_sorted [OF unrounded_ops_exact c]
    by (simp add: sample_records_def sample_passes sample_score_of)
qed


section \<open>The investment score\<close>

text \<open>
  Claim C5, as stated: the price-per-unit tier counts only when the price is positive. The
  code tests the price for being non-zero: a listing priced at \<open>-5\<close>, which passes the
  gate once the configured minimum price is negative, earns the 15 points of the lowest
  tier and scores 87, where the claimed sum gives 72.
\<close>

theorem negative_price_scores_fifteen:
  "passes_all negative_price_criteria negative_price_record
   \<and> calculate_investment_score unrounded_ops negative_price_record = Inr 87
   \<and> claimed_score unrounded_ops negative_price_record = 72"
  by (simp add: negative_price_record_def negative_price_criteria_def filter_eval score_eval
                claimed_score_def sample_eval str_eval)

text \<open>
  Claim C5, amended, for float operations that are exact on the integers up to \<open>2^53\<close> and
  a record whose unit counts are small enough for the score to be computed without
  rounding: the scoring returns the sum of 30 for a record with special units,
  \<open>min (count * 10) 30\<close>, \<open>min (units * 5) 25\<close> for a positive unit count, the price-per-unit
  tier 15/10/5/0 at 100000/150000/200000 of the floating-point quotient of price and unit
  count, whenever the price is present and not zero and the unit count is positive, and the
  days-on-market tier 10/7/5/0 at 7/14/30 when present, capped at 100. The score never
  exceeds 100, it is not negative for a non-negative special-unit count, and it is the sum
  the claim states whenever the price is absent or not negative.
\<close>

theorem investment_score_formula:
  assumes ops: "exact_ops fo" and cnt: "exact_counts p"
  shows "calculate_investment_score fo p =
     Inr (of_int (min ((if has_b_units p then 30 else 0)
          + min (b_unit_count p * 10) 30
          + (if 0 < total_units p then min (total_units p * 5) 25 else 0)
          + (case price (zillow_data p) of
               None \<Rightarrow> 0
             | Some pr \<Rightarrow>
                 if pr \<noteq> 0 \<and> 0 < total_units p
                 then (if float_div fo pr (of_int (total_units p)) \<le> 100000 then 15
                       else if float_div fo pr (of_int (total_units p)) \<le> 150000 then 10
                       else if float_div fo pr (of_int (total_units p)) \<le> 200000 then 5 else 0)
                 else 0)
          + (case days_on_market (zillow_data p) of
               None \<Rightarrow> 0
             | Some d \<Rightarrow> if d \<le> 7 then 10 else if d \<le> 14 then 7 else if d \<le> 30 then 5 else 0))
         100))
   \<and> (\<exists>s. calculate_investment_score fo p = Inr s \<and> s \<le> 100
           \<and> (0 \<le> b_unit_count p \<longrightarrow> 0 \<le> s))
   \<and> ((case price (zillow_data p) of None \<Rightarrow> True | Some pr \<Rightarrow> 0 \<le> pr)
        \<longrightarrow> calculate_investment_score fo p = Inr (claimed_score fo p))"
proof -
  define A :: int where "A = (if has_b_units p then 30 else 0)"
  define B :: int where "B = min (b_unit_count p * 10) 30"
  define C :: int where "C = (if 0 < total_units p then min (total_units p * 5) 25 else 0)"
  define D :: int where "D = (case price (zillow_data p) of
               None \<Rightarrow> 0
             | Some pr \<Rightarrow>
                 if pr \<noteq> 0 \<and> 0 < total_units p
                 then price_per_unit_points (float_div fo pr (of_int (total_units p)))
                 else 0)"
  define E :: int where "E = (case days_on_market (zillow_data p) of
               None \<Rightarrow> 0 | Some d \<Rightarrow> days_on_market_points d)"
  define D' :: int where "D' = (case price (zillow_data p) of
               None \<Rightarrow> 0
             | Some pr \<Rightarrow>
                 if 0 < pr \<and> 0 < total_units p
                 then price_per_unit_points (float_div fo pr (of_int (total_units p)))
                 else 0)"
  have s: "calculate_investment_score fo p = Inr (of_int (min (A + B + C + D + E) 100))"
    using score_exact(1) [OF ops cnt] unfolding A_def B_def C_def D_def E_def .
  have 0: "calculate_investment_score fo p =
     Inr (of_int (min ((if has_b_units p then 30 else 0)
          + min (b_unit_count p * 10) 30
          + (if 0 < total_units p then min (total_units p * 5) 25 else 0)
          + (case price (zillow_data p) of
               None \<Rightarrow> 0
             | Some pr \<Rightarrow>
                 if pr \<noteq> 0 \<and> 0 < total_units p
                 then (if float_div fo pr (of_int (total_units p)) \<le> 100000 then 15
                       else if float_div fo pr (of_int (total_units p)) \<le> 150000 then 10
                       else if float_div fo pr (of_int (total_units p)) \<le> 200000 then 5 else 0)
                 else 0)
          + (case days_on_market (zillow_data p) of
               None \<Rightarrow> 0
             | Some d \<Rightarrow> if d \<le> 7 then 10 else if d \<le> 14 then 7 else if d \<le> 30 then 5 else 0))
         100))"
    using score_exact(1) [OF ops cnt]
    unfolding price_per_unit_points_def days_on_market_points_def .
  have rA: "0 \<le> A" by (simp add: A_def)
  have rC: "0 \<le> C" by (simp add: C_def)
  have rD: "0 \<le> D" using points_range(1) by (simp add: D_def split: option.splits)
  have rE: "0 \<le> E" using points_range(3) by (simp add: E_def split: option.splits)
  have rB: "0 \<le> b_unit_count p \<Longrightarrow> 0 \<le> B" by (simp add: B_def)
  have 1: "\<exists>s. calculate_investment_score fo p = Inr s \<and> s \<le> 100
           \<and> (0 \<le> b_unit_count p \<longrightarrow> 0 \<le> s)"
  proof -
    have u: "(of_int (min (A + B + C + D + E) 100) :: rat) \<le> 100"
    proof -
      have "min (A + B + C + D + E) 100 \<le> 100" by simp
      then have "(of_int (min (A + B + C + D + E) 100) :: rat) \<le> of_int 100"
        by (rule of_int_le_iff [THEN iffD2])
      then show ?thesis by simp
    qed
    have l: "0 \<le> b_unit_count p \<longrightarrow> (0 :: rat) \<le> of_int (min (A + B + C + D + E) 100)"
    proof
      assume "0 \<le> b_unit_count p"
      then have "0 \<le> min (A + B + C + D + E) 100" using rA rB rC rD rE by simp
      then show "(0 :: rat) \<le> of_int (min (A + B + C + D + E) 100)" by simp
    qed
    from s u l show ?thesis by blast
  qed
  have a: "(if has_b_units p then 30 else 0) = (of_int A :: rat)"
    by (simp add: A_def)
  have c: "(if 0 < total_units p then of_int (min (total_units p * 5) 25) else 0)
             = (of_int C :: rat)"
    by (simp add: C_def)
  have d: "(case price (zillow_data p) of
             None \<Rightarrow> 0
           | Some pr \<Rightarrow>
               if 0 < pr \<and> 0 < total_units p
               then (if float_div fo pr (of_int (total_units p)) \<le> 100000 then 15
                     else if float_div fo pr (of_int (total_units p)) \<le> 150000 then 10
                     else if float_div fo pr (of_int (total_units p)) \<le> 200000 then 5 else 0)
               else 0) = (of_int D' :: rat)"
    by (cases "price (zillow_data p)") (simp_all add: D'_def price_per_unit_points_def)
  have e: "(case days_on_market (zillow_data p) of
             None \<Rightarrow> 0
           | Some d \<Rightarrow> if d \<le> 7 then 10 else if d \<le> 14 then 7 else if d \<le> 30 then 5 else 0)
             = (of_int E :: rat)"
    by (cases "days_on_market (zillow_data p)") (simp_all add: E_def days_on_market_points_def)
  have cs: "claimed_score fo p = of_int (min 100 (A + B + C + D' + E))"
  proof -
    have "claimed_score fo p = min 100 (of_int A + of_int B + of_int C + of_int D' + of_int E)"
      unfolding claimed_score_def a c d e B_def by (rule refl)
    then show ?thesis by simp
  qed
  have dd: "(case price (zillow_data p) of None \<Rightarrow> True | Some pr \<Rightarrow> 0 \<le> pr) \<Longrightarrow> D' = D"
    by (cases "price (zillow_data p)") (auto simp: D_def D'_def)
  have 2: "(case price (zillow_data p) of None \<Rightarrow> True | Some pr \<Rightarrow> 0 \<le> pr)
        \<longrightarrow> calculate_investment_score fo p = Inr (claimed_score fo p)"
    using dd by (simp add: s cs min.commute)
  show ?thesis
    apply (rule conjI [OF 0])
    apply (rule conjI [OF 1 2])
    done
qed

theorem investment_score_formula_witness:
  "exact_ops unrounded_ops \<and> exact_counts record_a
   \<and> 0 \<le> b_unit_count record_a
   \<and> (case price (zillow_data record_a) of None \<Rightarrow> True | Some pr \<Rightarrow> 0 \<le> pr)
   \<and> calculate_investment_score unrounded_ops record_a = Inr 72
   \<and> claimed_score unrounded_ops record_a = 72"
proof -
  have h1: "0 \<le> b_unit_count record_a"
    by (simp add: record_a_def matched_with_def gold_building_def)
  have h2: "case price (zillow_data record_a) of None \<Rightarrow> True | Some pr \<Rightarrow> 0 \<le> pr"
    by (simp add: record_a_def matched_with_def gold_listing_def listing_def)
  from investment_score_formula [OF unrounded_ops_exact sample_counts(1)] h2
  have "calculate_investment_score unrounded_ops record_a = Inr (claimed_score unrounded_ops record_a)"
    by blast
  with unrounded_ops_exact sample_counts(1) h1 h2 sample_scores(1) show ?thesis by simp
qed

text \<open>The matcher only ever stores a list length in the special-unit count.\<close>

lemma matched_count_nonneg: "0 \<le> b_unit_count (fst (match_property co cache st z))"
  by (auto simp: match_property_def match_property_try_def verify_match_def new_enriched_def Let_def
           split: option.splits sum.splits)

section \<open>The gate\<close>

text \<open>
  Claim C6, as stated: a record is in the output exactly when it passes the gates, the
  borough gate being membership in the configured allow-list. A listing whose borough is
  the empty string is rejected although the allow-list contains the empty string and all
  other gates are passed.
\<close>

theorem empty_borough_rejected:
  "claimed_gate empty_borough_criteria empty_borough_record
   \<and> filter_properties unrounded_ops empty_borough_criteria [empty_borough_record] = Inr []"
proof -
  have 1: "claimed_gate empty_borough_criteria empty_borough_record"
    by (simp add: claimed_gate_def empty_borough_criteria_def empty_borough_record_def
                  default_criteria_def matched_with_def list_or_empty_def sample_eval str_eval)
  have 2: "\<not> passes_all empty_borough_criteria empty_borough_record"
    by (simp add: empty_borough_criteria_def empty_borough_record_def filter_eval sample_eval)
  show ?thesis using 1 2 by (simp add: filter_properties_def)
qed

lemma passes_all_explicit:
  "passes_all crit p \<longleftrightarrow>
     (\<exists>pr. price (zillow_data p) = Some pr \<and> min_price crit \<le> pr \<and> pr \<le> max_price crit)
     \<and> (\<exists>b. bedrooms (zillow_data p) = Some b \<and> min_bedrooms crit \<le> b)
     \<and> (\<exists>b. bathrooms (zillow_data p) = Some b \<and> min_bathrooms crit \<le> b)
     \<and> hpd_match_found p \<and> min_units crit \<le> total_units p
     \<and> (require_b_units crit \<longrightarrow> has_b_units p)
     \<and> (list_or_empty (boroughs crit) \<noteq> [] \<longrightarrow>
          (\<exists>b. borough (address (zillow_data p)) = Some b \<and> b \<noteq> []
               \<and> b \<in> set (list_or_empty (boroughs crit))))
     \<and> (list_or_empty (property_types crit) \<noteq> [] \<longrightarrow>
          (\<exists>t. property_type (zillow_data p) = Some t \<and> t \<noteq> []
               \<and> (\<exists>pt \<in> set (list_or_empty (property_types crit)). contains (lower pt) (lower t))))"
  unfolding passes_all_def meets_price_criteria_def meets_bedroom_criteria_def
    meets_bathroom_criteria_def meets_unit_criteria_def has_required_b_units_def
    meets_borough_criteria_def meets_property_type_criteria_def Let_def list_ex_iff
  by (auto split: option.splits)

lemma passes_all_claimed:
  "passes_all crit p \<longleftrightarrow>
     claimed_gate crit p
     \<and> (list_or_empty (boroughs crit) \<noteq> [] \<longrightarrow> borough (address (zillow_data p)) \<noteq> Some [])
     \<and> (list_or_empty (property_types crit) \<noteq> [] \<longrightarrow> property_type (zillow_data p) \<noteq> Some [])"
  unfolding claimed_gate_def passes_all_def meets_price_criteria_def meets_bedroom_criteria_def
    meets_bathroom_criteria_def meets_unit_criteria_def has_required_b_units_def
    meets_borough_criteria_def meets_property_type_criteria_def Let_def
  by (auto split: option.splits)

text \<open>
  Claim C6, amended. \<^verbatim>\<open>filter_properties\<close> returns when the float operations are exact on
  the integers up to \<open>2^53\<close> and the unit counts of the passing records are small enough
  for their scores to be computed without rounding; it raises when the scoring of a passing
  record raises. Whenever it returns, a record is in its output exactly when it is a record
  of the input (marked, with its note) that passes all gates: price present and within the
  inclusive range; bedrooms and bathrooms present and at least the minimum; match flag set
  and unit count at least the minimum; special units when they are required; when a
  borough allow-list is configured, a borough that is present, not empty and an exact
  member of it; when a type allow-list is configured, a property type that is present, not
  empty and contains one of the entries, both in lower case. This is the gate of the claim
  with one addition: an empty borough or type never passes a configured list.
\<close>

theorem filter_output_membership:
  "(exact_ops fo \<and> (\<forall>p \<in> set ps. passes_all crit p \<longrightarrow> exact_counts p)
      \<longrightarrow> (\<exists>out. filter_properties fo crit ps = Inr out))
   \<and> ((\<exists>p \<in> set ps. passes_all crit p \<and> (\<exists>e. calculate_investment_score fo p = Inl e))
      \<longrightarrow> (\<exists>e. filter_properties fo crit ps = Inl e))
   \<and> (\<forall>out. filter_properties fo crit ps = Inr out \<longrightarrow>
        (\<forall>r. r \<in> set out \<longleftrightarrow>
           (\<exists>p \<in> set ps. r = with_note fo p
              \<and> (\<exists>pr. price (zillow_data p) = Some pr \<and> min_price crit \<le> pr \<and> pr \<le> max_price crit)
              \<and> (\<exists>b. bedrooms (zillow_data p) = Some b \<and> min_bedrooms crit \<le> b)
              \<and> (\<exists>b. bathrooms (zillow_data p) = Some b \<and> min_bathrooms crit \<le> b)
              \<and> hpd_match_found p \<and> min_units crit \<le> total_units p
              \<and> (require_b_units crit \<longrightarrow> has_b_units p)
              \<and> (list_or_empty (boroughs crit) \<noteq> [] \<longrightarrow>
                   (\<exists>b. borough (address (zillow_data p)) = Some b \<and> b \<noteq> []
                        \<and> b \<in> set (list_or_empty (boroughs crit))))
              \<and> (list_or_empty (property_types crit) \<noteq> [] \<longrightarrow>
                   (\<exists>t. property_type (zillow_data p) = Some t \<and> t \<noteq> []
                        \<and> (\<exists>pt \<in> set (list_or_empty (property_types crit)).
                               contains (lower pt) (lower t)))))))
   \<and> (\<forall>p. passes_all crit p \<longleftrightarrow>
          claimed_gate crit p
          \<and> (list_or_empty (boroughs crit) \<noteq> [] \<longrightarrow> borough (address (zillow_data p)) \<noteq> Some [])
          \<and> (list_or_empty (property_types crit) \<noteq> [] \<longrightarrow>
               property_type (zillow_data p) \<noteq> Some []))"
proof -
  have 1: "exact_ops fo \<and> (\<forall>p \<in> set ps. passes_all crit p \<longrightarrow> exact_counts p)
      \<longrightarrow> (\<exists>out. filter_properties fo crit ps = Inr out)"
    using filter_properties_sorted [of fo ps crit] by blast
  have 2: "(\<exists>p \<in> set ps. passes_all crit p \<and> (\<exists>e. calculate_investment_score fo p = Inl e))
      \<longrightarrow> (\<exists>e. filter_properties fo crit ps = Inl e)"
    using filter_properties_raises [of ps crit fo] by blast
  have 3: "\<forall>out. filter_properties fo crit ps = Inr out \<longrightarrow>
        (\<forall>r. r \<in> set out \<longleftrightarrow>
           (\<exists>p \<in> set ps. r = with_note fo p
              \<and> (\<exists>pr. price (zillow_data p) = Some pr \<and> min_price crit \<le> pr \<and> pr \<le> max_price crit)
              \<and> (\<exists>b. bedrooms (zillow_data p) = Some b \<and> min_bedrooms crit \<le> b)
              \<and> (\<exists>b. bathrooms (zillow_data p) = Some b \<and> min_bathrooms crit \<le> b)
              \<and> hpd_match_found p \<and> min_units crit \<le> total_units p
              \<and> (require_b_units crit \<longrightarrow> has_b_units p)
              \<and> (list_or_empty (boroughs crit) \<noteq> [] \<longrightarrow>
                   (\<exists>b. borough (address (zillow_data p)) = Some b \<and> b \<noteq> []
                        \<and> b \<in> set (list_or_empty (boroughs crit))))
              \<and> (list_or_empty (property_types crit) \<noteq> [] \<longrightarrow>
                   (\<exists>t. property_type (zillow_data p) = Some t \<and> t \<noteq> []
                        \<and> (\<exists>pt \<in> set (list_or_empty (property_types crit)).
                               contains (lower pt) (lower t))))))"
  proof (intro allI impI)
    fix out r
    assume o: "filter_properties fo crit ps = Inr out"
    have s: "set out = with_note fo ` {p \<in> set ps. passes_all crit p}"
      using o by (rule filter_properties_set)
    have m: "r \<in> set out \<longleftrightarrow> (\<exists>p \<in> set ps. r = with_note fo p \<and> passes_all crit p)"
      unfolding s by blast
    show "r \<in> set out \<longleftrightarrow>
           (\<exists>p \<in> set ps. r = with_note fo p
              \<and> (\<exists>pr. price (zillow_data p) = Some pr \<and> min_price crit \<le> pr \<and> pr \<le> max_price crit)
              \<and> (\<exists>b. bedrooms (zillow_data p) = Some b \<and> min_bedrooms crit \<le> b)
              \<and> (\<exists>b. bathrooms (zillow_data p) = Some b \<and> min_bathrooms crit \<le> b)
              \<and> hpd_match_found p \<and> min_units crit \<le> total_units p
              \<and> (require_b_units crit \<longrightarrow> has_b_units p)
              \<and> (list_or_empty (boroughs crit) \<noteq> [] \<longrightarrow>
                   (\<exists>b. borough (address (zillow_data p)) = Some b \<and> b \<noteq> []
                        \<and> b \<in> set (list_or_empty (boroughs crit))))
              \<and> (list_or_empty (property_types crit) \<noteq> [] \<longrightarrow>
                   (\<exists>t. property_type (zillow_data p) = Some t \<and> t \<noteq> []
                        \<and> (\<exists>pt \<in> set (list_or_empty (property_types crit)).
                               contains (lower pt) (lower t)))))"
      apply (subst m)
      apply (simp only: passes_all_explicit)
      done
  qed
  have 4: "\<forall>p. passes_all crit p \<longleftrightarrow>
          claimed_gate crit p
          \<and> (list_or_empty (boroughs crit) \<noteq> [] \<longrightarrow> borough (address (zillow_data p)) \<noteq> Some [])
          \<and> (list_or_empty (property_types crit) \<noteq> [] \<longrightarrow>
               property_type (zillow_data p) \<noteq> Some [])"
    using passes_all_claimed by blast
  show ?thesis
    apply (rule conjI [OF 1])
    apply (rule conjI [OF 2])
    apply (rule conjI [OF 3 4])
    done
qed

theorem filter_output_membership_witness:
  "exact_ops unrounded_ops
   \<and> list_all exact_counts sample_records
   \<and> filter_properties unrounded_ops default_criteria sample_records
       = Inr [with_note unrounded_ops record_c, with_note unrounded_ops record_a,
              with_note unrounded_ops record_d]
   \<and> passes_all default_criteria record_a
   \<and> claimed_gate default_criteria record_a
   \<and> \<not> passes_all default_criteria record_b
   \<and> passes_all default_criteria huge_units_record
   \<and> (\<exists>e. filter_properties unrounded_ops default_criteria [huge_units_record] = Inl e)"
proof -
  have c: "\<forall>p \<in> set sample_records. passes_all default_criteria p \<longrightarrow> exact_counts p"
    by (simp add: sample_records_def sample_counts)
  have g: "\<forall>p. passes_all default_criteria p \<longleftrightarrow>
          claimed_gate default_criteria p
          \<and> (list_or_empty (boroughs default_criteria) \<noteq> [] \<longrightarrow>
               borough (address (zillow_data p)) \<noteq> Some [])
          \<and> (list_or_empty (property_types default_criteria) \<noteq> [] \<longrightarrow>
               property_type (zillow_data p) \<noteq> Some [])"
    using filter_output_membership [of unrounded_ops sample_records default_criteria]
    by (elim conjE)
  then have a: "claimed_gate default_criteria record_a" using sample_passes(1) by blast
  have h: "\<exists>p \<in> set [huge_units_record]. passes_all default_criteria p
             \<and> (\<exists>e. calculate_investment_score unrounded_ops p = Inl e)"
    using huge_unit_count_raises by simp
  have r: "\<exists>e. filter_properties unrounded_ops default_criteria [huge_units_record] = Inl e"
    using filter_output_membership [of unrounded_ops "[huge_units_record]" default_criteria] h
    by (elim conjE) blast
  have lc: "list_all exact_counts sample_records"
    by (simp add: sample_records_def sample_counts)
  show ?thesis
    using unrounded_ops_exact lc sample_filter_output sample_passes(1,2) a huge_unit_count_raises r
    by simp
qed

section \<open>Failures while matching\<close>

lemma gather_length: "length (fst (gather co cache zs st)) = length zs"
proof (induction zs arbitrary: st)
  case Nil
  then show ?case by simp
next
  case (Cons z zs)
  obtain e st1 where m: "match_property co cache st z = (e, st1)"
    by (cases "match_property co cache st z")
  obtain es st2 where g: "gather co cache zs st1 = (es, st2)"
    by (cases "gather co cache zs st1")
  show ?case using m g Cons.IH [of st1] by simp
qed

lemma gather_state: "snd (gather co cache zs st) = state_after co cache st zs"
proof (induction zs arbitrary: st)
  case Nil
  then show ?case by (simp add: state_after_def)
next
  case (Cons z zs)
  obtain e st1 where m: "match_property co cache st z = (e, st1)"
    by (cases "match_property co cache st z")
  obtain es st2 where g: "gather co cache zs st1 = (es, st2)"
    by (cases "gather co cache zs st1")
  show ?case using m g Cons.IH [of st1] by (simp add: state_after_def)
qed

lemma gather_nth:
  "i < length zs \<Longrightarrow>
   fst (gather co cache zs st) ! i
     = fst (match_property co cache (state_after co cache st (take i zs)) (zs ! i))"
proof (induction zs arbitrary: st i)
  case Nil
  then show ?case by simp
next
  case (Cons z zs)
  obtain e st1 where m: "match_property co cache st z = (e, st1)"
    by (cases "match_property co cache st z")
  obtain es st2 where g: "gather co cache zs st1 = (es, st2)"
    by (cases "gather co cache zs st1")
  show ?case
  proof (cases i)
    case 0
    then show ?thesis using m g by (simp add: state_after_def)
  next
    case (Suc j)
    then have j: "j < length zs" using Cons.prems by simp
    have "es ! j = fst (match_property co cache (state_after co cache st1 (take j zs)) (zs ! j))"
      using Cons.IH [OF j, of st1] g by simp
    then show ?thesis using Suc m g by (simp add: state_after_def)
  qed
qed

lemma gather_append:
  "gather co cache (xs @ ys) st =
     (fst (gather co cache xs st) @ fst (gather co cache ys (snd (gather co cache xs st))),
      snd (gather co cache ys (snd (gather co cache xs st))))"
proof (induction xs arbitrary: st)
  case Nil
  then show ?case by simp
next
  case (Cons x xs)
  obtain e st1 where m: "match_property co cache st x = (e, st1)"
    by (cases "match_property co cache st x")
  show ?case using m Cons.IH [of st1] by (simp add: split_beta)
qed

lemma batch_loop_gather:
  "0 < bs \<Longrightarrow> batch_loop co cache bs zs st = gather co cache zs st"
proof (induction co cache bs zs st rule: batch_loop.induct)
  case (1 co cache bs zs st)
  show ?case
  proof (cases "zs = []")
    case True
    then show ?thesis by (subst batch_loop.simps) simp
  next
    case False
    obtain results st1 where g: "gather co cache (take bs zs) st = (results, st1)"
      by (cases "gather co cache (take bs zs) st")
    have ih: "batch_loop co cache bs (drop bs zs) st1 = gather co cache (drop bs zs) st1"
      using "1.IH" [of "(results, st1)" results st1] False "1.prems" g by simp
    have "batch_loop co cache bs zs st =
            (results @ fst (gather co cache (drop bs zs) st1),
             snd (gather co cache (drop bs zs) st1))"
      using False "1.prems" g ih by (subst batch_loop.simps) (simp add: split_beta)
    also have "\<dots> = gather co cache (take bs zs @ drop bs zs) st"
      by (subst gather_append) (simp only: g fst_conv snd_conv)
    finally show ?thesis by simp
  qed
qed

lemma batch_matches_every_listing:
  assumes "0 < batch_size"
  shows "\<exists>res. match_properties_batch co clock cache st zs batch_size = Inr res
             \<and> length (enriched_properties res) = length zs
             \<and> (\<forall>i < length zs. enriched_properties res ! i
                    = fst (match_property co cache (state_after co cache st (take i zs)) (zs ! i)))"
proof -
  have nb: "0 < nat batch_size" using assms by simp
  have l: "batch_loop co cache (nat batch_size) zs st = gather co cache zs st"
    using nb by (rule batch_loop_gather)
  obtain enriched st' where g: "gather co cache zs st = (enriched, st')"
    by (cases "gather co cache zs st")
  have len: "length enriched = length zs" using gather_length [of co cache zs st] g by simp
  have nth: "\<forall>i < length zs. enriched ! i
                    = fst (match_property co cache (state_after co cache st (take i zs)) (zs ! i))"
    using gather_nth [of _ zs co cache st] g by simp
  show ?thesis
    using assms l g len nth
    by (auto simp: match_properties_batch_def Let_def split: prod.splits)
qed

lemma try_raises_iff:
  "fst (match_property_try co cache st z) = Inl e \<longleftrightarrow>
     get_cached_hpd_data (py co) cache (address z) = None
     \<and> search_by_address co (scraper_calls st) (address z) = Inl e"
  by (auto simp: match_property_try_def Let_def split: option.splits sum.splits)

text \<open>
  Claim C9, as stated: whatever exception is raised while a listing is matched, the cache
  lookup included, the listing comes back with the match flag unset. A cached row that
  cannot be rebuilt raises inside the cache lookup; the lookup swallows the exception and
  reports a miss, the lookup collaborator is asked, and the listing comes back matched.
\<close>

theorem unreadable_row_still_matched:
  "map_of unreadable_cache (cache_normalize_address (address gold_listing))
     = Some (snd (hd unreadable_cache))
   \<and> reconstruct_building (py sample_collaborators) (snd (hd unreadable_cache))
        (address gold_listing) = Inl ValueError
   \<and> hpd_match_found
        (fst (match_property sample_collaborators unreadable_cache empty_state gold_listing))"
proof -
  have 1: "map_of unreadable_cache (cache_normalize_address (address gold_listing))
     = Some (snd (hd unreadable_cache))"
    by (simp add: unreadable_cache_def sample_eval cache_normalize_address_def str_eval)
  have 2: "reconstruct_building (py sample_collaborators) (snd (hd unreadable_cache))
        (address gold_listing) = Inl ValueError"
    by (simp add: unreadable_cache_def sample_eval cache_eval upt_0_2)
  have 3: "get_cached_hpd_data (py sample_collaborators) unreadable_cache (address gold_listing) = None"
    using 1 2 by (simp add: get_cached_hpd_data_def)
  have l: "search_by_address sample_collaborators (scraper_calls empty_state) (address gold_listing)
              = Inr (Some gold_building)"
    by (simp add: sample_collaborators_def sample_lookup_def gold_listing_def listing_def addr_of_def)
  have s: "calculate_address_similarity (fuzz_ratio sample_collaborators) (address gold_listing)
              (bldg_address gold_building) = 94"
    using gold_similarity by (simp add: sample_collaborators_def gold_listing_def listing_def)
  have "hpd_match_found
        (fst (match_property sample_collaborators unreadable_cache empty_state gold_listing))"
    using 3 l s
    by (simp add: match_property_def match_property_try_def verify_match_def match_threshold_def
          Let_def)
  with 1 2 show ?thesis by simp
qed

text \<open>
  Claim C9, amended. An exception of the lookup collaborator is caught: the listing's
  record is returned as it was created, with the match flag unset, and only the call is
  recorded. Nothing else leaves the \<^verbatim>\<open>try\<close> block by an exception. An exception while a
  cached row is rebuilt is caught inside the cache lookup and turned into a miss, after
  which the listing is matched like any listing that is not cached. The batch is not
  aborted: for a positive batch size it returns, for every listing and in input order, the
  record \<^verbatim>\<open>match_property\<close> gives for it in the state the listings before it have left.
  The filter returns when the float operations are exact on the integers up to \<open>2^53\<close> and
  the unit counts of the passing records are small enough for the scores to be computed
  without rounding.
\<close>

theorem lookup_failures_contained:
  "(get_cached_hpd_data (py co) cache (address z) = None
      \<and> search_by_address co (scraper_calls st) (address z) = Inl e
    \<longrightarrow> match_property co cache st z
          = (new_enriched z, st\<lparr>scraper_calls := scraper_calls st @ [address z]\<rparr>)
        \<and> \<not> hpd_match_found (fst (match_property co cache st z)))
   \<and> (fst (match_property_try co cache st z) = Inl e \<longleftrightarrow>
        get_cached_hpd_data (py co) cache (address z) = None
        \<and> search_by_address co (scraper_calls st) (address z) = Inl e)
   \<and> (map_of cache (cache_normalize_address (address z)) = Some r
        \<and> reconstruct_building (py co) r (address z) = Inl e'
    \<longrightarrow> get_cached_hpd_data (py co) cache (address z) = None)
   \<and> (0 < batch_size
    \<longrightarrow> (\<exists>res. match_properties_batch co clock cache st zs batch_size = Inr res
             \<and> length (enriched_properties res) = length zs
             \<and> (\<forall>i < length zs. enriched_properties res ! i
                    = fst (match_property co cache (state_after co cache st (take i zs)) (zs ! i)))))
   \<and> (exact_ops fo \<and> (\<forall>p \<in> set ps. passes_all crit p \<longrightarrow> exact_counts p)
    \<longrightarrow> (\<exists>out. filter_properties fo crit ps = Inr out))"
proof -
  have 1: "get_cached_hpd_data (py co) cache (address z) = None
      \<and> search_by_address co (scraper_calls st) (address z) = Inl e
    \<longrightarrow> match_property co cache st z
          = (new_enriched z, st\<lparr>scraper_calls := scraper_calls st @ [address z]\<rparr>)
        \<and> \<not> hpd_match_found (fst (match_property co cache st z))"
    by (simp add: match_property_def match_property_try_def Let_def new_enriched_def)
  have 2: "fst (match_property_try co cache st z) = Inl e \<longleftrightarrow>
        get_cached_hpd_data (py co) cache (address z) = None
        \<and> search_by_address co (scraper_calls st) (address z) = Inl e"
    by (rule try_raises_iff)
  have 3: "map_of cache (cache_normalize_address (address z)) = Some r
        \<and> reconstruct_building (py co) r (address z) = Inl e'
    \<longrightarrow> get_cached_hpd_data (py co) cache (address z) = None"
    by (simp add: get_cached_hpd_data_def)
  have 4: "0 < batch_size
    \<longrightarrow> (\<exists>res. match_properties_batch co clock cache st zs batch_size = Inr res
             \<and> length (enriched_properties res) = length zs
             \<and> (\<forall>i < length zs. enriched_properties res ! i
                    = fst (match_property co cache (state_after co cache st (take i zs)) (zs ! i))))"
    using batch_matches_every_listing by blast
  have 5: "exact_ops fo \<and> (\<forall>p \<in> set ps. passes_all crit p \<longrightarrow> exact_counts p)
    \<longrightarrow> (\<exists>out. filter_properties fo crit ps = Inr out)"
    using filter_properties_sorted [of fo ps crit] by blast
  show ?thesis
    apply (rule conjI [OF 1])
    apply (rule conjI [OF 2])
    apply (rule conjI [OF 3])
    apply (rule conjI [OF 4 5])
    done
qed

theorem lookup_failures_contained_witness:
  "map_of unreadable_cache (cache_normalize_address (address (listing ''7 Elm Road'' None None)))
     = Some (snd (unreadable_cache ! 1))
   \<and> reconstruct_building (py sample_collaborators) (snd (unreadable_cache ! 1))
        (address (listing ''7 Elm Road'' None None)) = Inl ValueError
   \<and> get_cached_hpd_data (py sample_collaborators) unreadable_cache
        (address (listing ''7 Elm Road'' None None)) = None
   \<and> search_by_address sample_collaborators (scraper_calls empty_state)
        (address (listing ''7 Elm Road'' None None)) = Inl (OtherError ''timeout'')
   \<and> fst (match_property_try sample_collaborators unreadable_cache empty_state
             (listing ''7 Elm Road'' None None)) = Inl (OtherError ''timeout'')
   \<and> match_property sample_collaborators unreadable_cache empty_state
        (listing ''7 Elm Road'' None None)
       = (new_enriched (listing ''7 Elm Road'' None None),
          empty_state\<lparr>scraper_calls := [address (listing ''7 Elm Road'' None None)]\<rparr>)
   \<and> (0::int) < 10
   \<and> (\<exists>res. match_properties_batch sample_collaborators sample_clock unreadable_cache empty_state
              [listing ''7 Elm Road'' None None, gold_listing] 10 = Inr res
          \<and> length (enriched_properties res) = 2
          \<and> enriched_properties res ! 0 = new_enriched (listing ''7 Elm Road'' None None))
   \<and> exact_ops unrounded_ops
   \<and> list_all exact_counts sample_records
   \<and> (\<exists>out. filter_properties unrounded_ops default_criteria sample_records = Inr out)"
proof -
  let ?elm = "listing ''7 Elm Road'' None None"
  let ?co = sample_collaborators
  let ?r = "snd (unreadable_cache ! 1)"
  have k: "map_of unreadable_cache (cache_normalize_address (address ?elm)) = Some ?r"
    by (simp add: unreadable_cache_def listing_def addr_of_def cache_normalize_address_def
          str_eval)
  have b: "reconstruct_building (py ?co) ?r (address ?elm) = Inl ValueError"
    by (simp add: unreadable_cache_def sample_eval cache_eval upt_0_2)
  have l: "search_by_address ?co (scraper_calls empty_state) (address ?elm)
             = Inl (OtherError ''timeout'')"
    by (simp add: sample_collaborators_def sample_lookup_def listing_def addr_of_def)
  have p: "(0::int) < 10" by simp
  have c: "\<forall>p \<in> set sample_records. passes_all default_criteria p \<longrightarrow> exact_counts p"
    by (simp add: sample_records_def sample_counts)
  note t = lookup_failures_contained [of ?co unreadable_cache ?elm empty_state
         "OtherError ''timeout''" ?r ValueError 10 sample_clock "[?elm, gold_listing]"
         unrounded_ops sample_records default_criteria]
  from t have t1: "get_cached_hpd_data (py ?co) unreadable_cache (address ?elm) = None
        \<and> search_by_address ?co (scraper_calls empty_state) (address ?elm)
            = Inl (OtherError ''timeout'')
      \<longrightarrow> match_property ?co unreadable_cache empty_state ?elm
            = (new_enriched ?elm,
               empty_state\<lparr>scraper_calls := scraper_calls empty_state @ [address ?elm]\<rparr>)
          \<and> \<not> hpd_match_found (fst (match_property ?co unreadable_cache empty_state ?elm))"
    by (rule conjunct1)
  from t have t2: "fst (match_property_try ?co unreadable_cache empty_state ?elm)
          = Inl (OtherError ''timeout'') \<longleftrightarrow>
        get_cached_hpd_data (py ?co) unreadable_cache (address ?elm) = None
        \<and> search_by_address ?co (scraper_calls empty_state) (address ?elm)
            = Inl (OtherError ''timeout'')"
    by (rule conjunct1 [OF conjunct2])
  from t have t3: "map_of unreadable_cache (cache_normalize_address (address ?elm)) = Some ?r
        \<and> reconstruct_building (py ?co) ?r (address ?elm) = Inl ValueError
      \<longrightarrow> get_cached_hpd_data (py ?co) unreadable_cache (address ?elm) = None"
    by (rule conjunct1 [OF conjunct2 [OF conjunct2]])
  from t have t4: "(0::int) < 10 \<longrightarrow>
      (\<exists>res. match_properties_batch ?co sample_clock unreadable_cache empty_state
              [?elm, gold_listing] 10 = Inr res
          \<and> length (enriched_properties res) = length [?elm, gold_listing]
          \<and> (\<forall>i<length [?elm, gold_listing].
                 enriched_properties res ! i
                   = fst (match_property ?co unreadable_cache
                       (state_after ?co unreadable_cache empty_state
                          (take i [?elm, gold_listing]))
                       ([?elm, gold_listing] ! i))))"
    by (rule conjunct1 [OF conjunct2 [OF conjunct2 [OF conjunct2]]])
  from t have t5: "exact_ops unrounded_ops
        \<and> (\<forall>p \<in> set sample_records. passes_all default_criteria p \<longrightarrow> exact_counts p)
      \<longrightarrow> (\<exists>out. filter_properties unrounded_ops default_criteria sample_records = Inr out)"
    by (rule conjunct2 [OF conjunct2 [OF conjunct2 [OF conjunct2]]])
  from t3 k b
  have m: "get_cached_hpd_data (py ?co) unreadable_cache (address ?elm) = None"
    by blast
  from t2 m l
  have y: "fst (match_property_try ?co unreadable_cache empty_state ?elm)
             = Inl (OtherError ''timeout'')"
    by blast
  from t1 m l
  have "match_property ?co unreadable_cache empty_state ?elm
            = (new_enriched ?elm,
               empty_state\<lparr>scraper_calls := scraper_calls empty_state @ [address ?elm]\<rparr>)"
    by blast
  hence 1: "match_property ?co unreadable_cache empty_state ?elm
            = (new_enriched ?elm, empty_state\<lparr>scraper_calls := [address ?elm]\<rparr>)"
    by (simp add: empty_state_def)
  from t4 p obtain res where
      r: "match_properties_batch ?co sample_clock unreadable_cache empty_state
              [?elm, gold_listing] 10 = Inr res"
      "length (enriched_properties res) = length [?elm, gold_listing]"
      "\<forall>i<length [?elm, gold_listing].
                 enriched_properties res ! i
                   = fst (match_property ?co unreadable_cache
                       (state_after ?co unreadable_cache empty_state
                          (take i [?elm, gold_listing]))
                       ([?elm, gold_listing] ! i))"
    by blast
  from r(3) have "enriched_properties res ! 0
                   = fst (match_property ?co unreadable_cache
                       (state_after ?co unreadable_cache empty_state
                          (take 0 [?elm, gold_listing]))
                       ([?elm, gold_listing] ! 0))"
    by simp
  hence "enriched_properties res ! 0 = new_enriched ?elm"
    by (simp add: state_after_def 1)
  with r(1,2)
  have 2: "\<exists>res. match_properties_batch ?co sample_clock unreadable_cache empty_state
              [?elm, gold_listing] 10 = Inr res
          \<and> length (enriched_properties res) = 2
          \<and> enriched_properties res ! 0 = new_enriched ?elm"
    by simp
  from t5 unrounded_ops_exact c
  have 3: "\<exists>out. filter_properties unrounded_ops default_criteria sample_records = Inr out"
    by blast
  have lc: "list_all exact_counts sample_records"
    by (simp add: sample_records_def sample_counts)
  show ?thesis
    apply (rule conjI [OF k])
    apply (rule conjI [OF b])
    apply (rule conjI [OF m])
    apply (rule conjI [OF l])
    apply (rule conjI [OF y])
    apply (rule conjI [OF 1])
    apply (rule conjI [OF p])
    apply (rule conjI [OF 2])
    apply (rule conjI [OF unrounded_ops_exact])
    apply (rule conjI [OF lc 3])
    done
qed

end
